theory Spec2Isabelle
  imports Main
begin


section \<open>Python values\<close>

text \<open>
  The framework of \<^verbatim>\<open>main.py\<close> handles untyped data: the configuration is whatever
  \<^verbatim>\<open>json.load\<close> returns, a check returns any object, and the result set is a dict of
  dicts. Values are modelled by one datatype. A dict is an association list in insertion
  order. \<open>PObject\<close> stands for an instance of any other class (the string is its type
  name). Numbers are Python's unbounded integers; floats are left out.
\<close>

datatype pyval =
    PNone
  | PBool bool
  | PInt int
  | PStr string
  | PList "pyval list"
  | PTuple "pyval list"
  | PDict "(pyval \<times> pyval) list"
  | PObject string

text \<open>Exceptions the framework itself can raise, with a text for \<^verbatim>\<open>str(e)\<close> (the
  interpreter's wording of a TypeError or AttributeError is shortened). \<open>SystemExit\<close> is
  the only one that is not a subclass of \<^verbatim>\<open>Exception\<close>.\<close>

datatype pyexn =
    KeyError string
  | TypeError string
  | AttributeError string
  | OSError string
  | SystemExit int

fun type_name :: "pyval \<Rightarrow> string" where
  "type_name PNone = ''NoneType''"
| "type_name (PBool _) = ''bool''"
| "type_name (PInt _) = ''int''"
| "type_name (PStr _) = ''str''"
| "type_name (PList _) = ''list''"
| "type_name (PTuple _) = ''tuple''"
| "type_name (PDict _) = ''dict''"
| "type_name (PObject t) = t"

text \<open>Truth value testing, as \<^verbatim>\<open>not x\<close> and \<^verbatim>\<open>if x\<close> use it.\<close>

fun truthy :: "pyval \<Rightarrow> bool" where
  "truthy PNone = False"
| "truthy (PBool b) = b"
| "truthy (PInt i) = (i \<noteq> 0)"
| "truthy (PStr s) = (s \<noteq> [])"
| "truthy (PList xs) = (xs \<noteq> [])"
| "truthy (PTuple xs) = (xs \<noteq> [])"
| "truthy (PDict d) = (d \<noteq> [])"
| "truthy (PObject _) = True"

subsection \<open>Dict keys\<close>

text \<open>
  Python compares dict keys with \<^verbatim>\<open>==\<close>, under which \<^verbatim>\<open>True == 1\<close> and
  \<^verbatim>\<open>False == 0\<close>. Lists and dicts are unhashable: using one as a key raises TypeError.
\<close>

fun key_norm :: "pyval \<Rightarrow> pyval" where
  "key_norm (PBool b) = PInt (if b then 1 else 0)"
| "key_norm (PTuple xs) = PTuple (map key_norm xs)"
| "key_norm v = v"

definition key_eq :: "pyval \<Rightarrow> pyval \<Rightarrow> bool" where
  "key_eq a b = (key_norm a = key_norm b)"

fun hashable :: "pyval \<Rightarrow> bool" where
  "hashable (PList _) = False"
| "hashable (PDict _) = False"
| "hashable (PTuple xs) = list_all hashable xs"
| "hashable _ = True"

fun dict_lookup :: "(pyval \<times> 'v) list \<Rightarrow> pyval \<Rightarrow> 'v option" where
  "dict_lookup [] k = None"
| "dict_lookup ((k', v') # d) k = (if key_eq k' k then Some v' else dict_lookup d k)"

text \<open>\<^verbatim>\<open>d[k] = v\<close>: an existing key keeps its place (and the key object first inserted),
  a new key goes to the end.\<close>

fun dict_update :: "(pyval \<times> 'v) list \<Rightarrow> pyval \<Rightarrow> 'v \<Rightarrow> (pyval \<times> 'v) list" where
  "dict_update [] k v = [(k, v)]"
| "dict_update ((k', v') # d) k v =
     (if key_eq k' k then (k', v) # d else (k', v') # dict_update d k v)"

subsection \<open>The operations the framework applies to configuration values\<close>

fun is_infix :: "string \<Rightarrow> string \<Rightarrow> bool" where
  "is_infix k [] = (k = [])"
| "is_infix k (c # s) = (take (length k) (c # s) = k \<or> is_infix k s)"

text \<open>\<^verbatim>\<open>k in v\<close> for a string \<open>k\<close>.\<close>

fun py_contains :: "pyval \<Rightarrow> string \<Rightarrow> pyexn + bool" where
  "py_contains (PDict d) k = Inr (dict_lookup d (PStr k) \<noteq> None)"
| "py_contains (PList xs) k = Inr (PStr k \<in> set xs)"
| "py_contains (PTuple xs) k = Inr (PStr k \<in> set xs)"
| "py_contains (PStr s) k = Inr (is_infix k s)"
| "py_contains v k = Inl (TypeError (''argument of type '' @ type_name v @ '' is not iterable''))"

text \<open>\<^verbatim>\<open>v.get(k, default)\<close>: only a dict has the method.\<close>

fun py_get :: "pyval \<Rightarrow> string \<Rightarrow> pyval \<Rightarrow> pyexn + pyval" where
  "py_get (PDict d) k dflt = Inr (case dict_lookup d (PStr k) of Some x \<Rightarrow> x | None \<Rightarrow> dflt)"
| "py_get v k dflt = Inl (AttributeError (type_name v @ '' object has no attribute get''))"

text \<open>\<^verbatim>\<open>v[k]\<close> for a string \<open>k\<close>.\<close>

fun py_getitem :: "pyval \<Rightarrow> string \<Rightarrow> pyexn + pyval" where
  "py_getitem (PDict d) k = (case dict_lookup d (PStr k) of Some x \<Rightarrow> Inr x | None \<Rightarrow> Inl (KeyError k))"
| "py_getitem v k = Inl (TypeError (type_name v @ '' cannot be indexed by a str''))"

text \<open>The items a \<^verbatim>\<open>for\<close> loop visits.\<close>

fun py_iter :: "pyval \<Rightarrow> pyexn + pyval list" where
  "py_iter (PList xs) = Inr xs"
| "py_iter (PTuple xs) = Inr xs"
| "py_iter (PDict d) = Inr (map fst d)"
| "py_iter (PStr s) = Inr (map (\<lambda>c. PStr [c]) s)"
| "py_iter v = Inl (TypeError (type_name v @ '' object is not iterable''))"

text \<open>\<^verbatim>\<open>os.path.join(a, b)\<close> on a POSIX system.\<close>

fun os_path_join :: "pyval \<Rightarrow> pyval \<Rightarrow> pyexn + string" where
  "os_path_join (PStr a) (PStr b) =
     Inr (if b \<noteq> [] \<and> hd b = CHR ''/'' then b
          else if a = [] \<or> last a = CHR ''/'' then a @ b
          else a @ ''/'' @ b)"
| "os_path_join (PStr a) v = Inl (TypeError (''join() argument must be str, not '' @ type_name v))"
| "os_path_join v w = Inl (TypeError (''expected str, not '' @ type_name v))"

section \<open>The persisted document\<close>

text \<open>
  \<^verbatim>\<open>json.dump\<close> writes a JSON text and \<^verbatim>\<open>json.load\<close> reads one back. The text is
  modelled by the JSON value it denotes; an object is the list of its members as written,
  so it may repeat a key. This is the conversion table of Python's \<^verbatim>\<open>json\<close> module: a
  tuple is written as an array, a dict key that is an int, a bool or None is written as a
  string, and any other object (or key) raises TypeError.
\<close>

datatype jdoc =
    JNull
  | JBool bool
  | JNum int
  | JStr string
  | JArr "jdoc list"
  | JObj "(string \<times> jdoc) list"

fun dec_nat :: "nat \<Rightarrow> string" where
  "dec_nat n = (if n < 10 then [char_of (48 + n)] else dec_nat (n div 10) @ [char_of (48 + n mod 10)])"

definition dec_int :: "int \<Rightarrow> string" where
  "dec_int i = (if i < 0 then ''-'' @ dec_nat (nat (- i)) else dec_nat (nat i))"

fun json_key :: "pyval \<Rightarrow> string option" where
  "json_key (PStr s) = Some s"
| "json_key (PBool b) = Some (if b then ''true'' else ''false'')"
| "json_key PNone = Some ''null''"
| "json_key (PInt i) = Some (dec_int i)"
| "json_key _ = None"

fun json_dump :: "pyval \<Rightarrow> jdoc option"
  and json_dump_list :: "pyval list \<Rightarrow> jdoc list option"
  and json_dump_items :: "(pyval \<times> pyval) list \<Rightarrow> (string \<times> jdoc) list option" where
  "json_dump PNone = Some JNull"
| "json_dump (PBool b) = Some (JBool b)"
| "json_dump (PInt i) = Some (JNum i)"
| "json_dump (PStr s) = Some (JStr s)"
| "json_dump (PList xs) = map_option JArr (json_dump_list xs)"
| "json_dump (PTuple xs) = map_option JArr (json_dump_list xs)"
| "json_dump (PDict d) = map_option JObj (json_dump_items d)"
| "json_dump (PObject t) = None"
| "json_dump_list [] = Some []"
| "json_dump_list (x # xs) =
     (case json_dump x of None \<Rightarrow> None
      | Some j \<Rightarrow> (case json_dump_list xs of None \<Rightarrow> None | Some js \<Rightarrow> Some (j # js)))"
| "json_dump_items [] = Some []"
| "json_dump_items ((k, v) # d) =
     (case json_key k of None \<Rightarrow> None
      | Some s \<Rightarrow>
        (case json_dump v of None \<Rightarrow> None
         | Some j \<Rightarrow> (case json_dump_items d of None \<Rightarrow> None | Some js \<Rightarrow> Some ((s, j) # js))))"

text \<open>Reading back: an object becomes a dict, filled member by member, so that a repeated
  key keeps its first place and its last value.\<close>

fun json_load :: "jdoc \<Rightarrow> pyval"
  and json_load_list :: "jdoc list \<Rightarrow> pyval list"
  and json_load_items :: "(string \<times> jdoc) list \<Rightarrow> (pyval \<times> pyval) list \<Rightarrow> (pyval \<times> pyval) list" where
  "json_load JNull = PNone"
| "json_load (JBool b) = PBool b"
| "json_load (JNum i) = PInt i"
| "json_load (JStr s) = PStr s"
| "json_load (JArr xs) = PList (json_load_list xs)"
| "json_load (JObj kvs) = PDict (json_load_items kvs [])"
| "json_load_list [] = []"
| "json_load_list (x # xs) = json_load x # json_load_list xs"
| "json_load_items [] acc = acc"
| "json_load_items ((k, v) # kvs) acc = json_load_items kvs (dict_update acc (PStr k) (json_load v))"

section \<open>The environment of a run\<close>

text \<open>
  What a check does when it is called: it returns a value, raises an exception that is an
  instance of \<^verbatim>\<open>Exception\<close> (carrying \<^verbatim>\<open>str(e)\<close>), or raises \<^verbatim>\<open>SystemExit\<close>, which
  \<^verbatim>\<open>except Exception\<close> does not catch (carrying the exit status).
\<close>

datatype call_result = Returns pyval | RaisesException string | RaisesSystemExit int

text \<open>The attribute \<^verbatim>\<open>run\<close> of a loaded module: a function, or an object of some other
  type, which cannot be called.\<close>

datatype pyattr = Function "pyval \<Rightarrow> call_result" | NonCallable string

record pymodule =
  run_attr :: "pyattr option"

datatype import_result = Imported pymodule | ImportRaises string | ImportExits int

text \<open>Opening and parsing the configuration file: \<^verbatim>\<open>FileNotFoundError\<close>,
  \<^verbatim>\<open>json.JSONDecodeError\<close>, any other error (a directory, no permission), or the
  parsed value.\<close>

datatype config_source = NotFound | Malformed string | Unreadable string | Parsed pyval

text \<open>
  What a run finds outside the program: the command line, the configuration file, which
  paths exist, what executing a module file gives, the clock (its \<open>n\<close>-th reading) and
  whether the output file can be opened for writing. The environment is the same
  throughout a run: what a module or a check does is a function of its input alone.
\<close>

record environment =
  argv :: "string list"
  read_json :: "string \<Rightarrow> config_source"
  path_exists :: "string \<Rightarrow> bool"
  import_module :: "string \<Rightarrow> import_result"
  now :: "nat \<Rightarrow> string"
  open_w :: "pyval \<Rightarrow> bool"

section \<open>The framework object\<close>

text \<open>The lines the program prints, one constructor per \<^verbatim>\<open>print\<close> statement, with the
  values the line shows.\<close>

datatype message =
    MStart
  | MConfigLoaded string
  | MConfigNotFound string
  | MConfigParseError string
  | MErrorLoadingModule string string
  | MNoTestsDefined
  | MSkippingDisabled pyval
  | MTestFileNotFound string
  | MLoadedTest pyval
  | MMissingRun pyval
  | MRunning pyval
  | MErrorExecuting pyval string
  | MNoTestsToExecute
  | MStarting nat
  | MSummary nat nat nat
  | MResultsSaved pyval
  | MErrorSaving
  | MNoTestsLoadedExiting
  | MComplete

text \<open>What a run does, in order: the lines it prints, the module files it executes, the
  checks it calls (name and parameters) and the file it opens and writes.\<close>

datatype event =
    Print message
  | Import string
  | Invoke pyval pyval
  | Open pyval
  | Write pyval jdoc

record test_info =
  module :: pymodule
  test_config :: pyval

record framework =
  config_path :: string
  config :: pyval
  tests :: "(pyval \<times> test_info) list"
  results :: "(pyval \<times> pyval) list"
  out :: "event list"
  clock :: nat

text \<open>A method either returns (a value and the object's new state) or an exception leaves
  it (with the state the object has then).\<close>

datatype 'a pyresult = Returned 'a framework | Raised pyexn framework

fun state_of :: "'a pyresult \<Rightarrow> framework" where
  "state_of (Returned _ fw) = fw"
| "state_of (Raised _ fw) = fw"

definition init :: "string \<Rightarrow> framework" where
  "init p = \<lparr>config_path = p, config = PDict [], tests = [], results = [], out = [], clock = 0\<rparr>"

definition emit :: "message \<Rightarrow> framework \<Rightarrow> framework" where
  "emit m fw = fw\<lparr>out := out fw @ [Print m]\<rparr>"

definition trace :: "event \<Rightarrow> framework \<Rightarrow> framework" where
  "trace e fw = fw\<lparr>out := out fw @ [e]\<rparr>"

section \<open>The methods of \<^verbatim>\<open>EnumerationFramework\<close>\<close>

subsection \<open>\<^verbatim>\<open>load_config\<close>\<close>

text \<open>Only \<^verbatim>\<open>FileNotFoundError\<close> and \<^verbatim>\<open>json.JSONDecodeError\<close> are caught.\<close>

definition load_config :: "environment \<Rightarrow> framework \<Rightarrow> bool pyresult" where
  "load_config env fw =
     (case read_json env (config_path fw) of
        Parsed v \<Rightarrow> Returned True (emit (MConfigLoaded (config_path fw)) (fw\<lparr>config := v\<rparr>))
      | NotFound \<Rightarrow> Returned False (emit (MConfigNotFound (config_path fw)) fw)
      | Malformed e \<Rightarrow> Returned False (emit (MConfigParseError e) fw)
      | Unreadable e \<Rightarrow> Raised (OSError e) fw)"

subsection \<open>\<^verbatim>\<open>load_test_module\<close>\<close>

text \<open>The whole body is inside \<^verbatim>\<open>try ... except Exception\<close>, which returns None.\<close>

definition load_test_module :: "environment \<Rightarrow> framework \<Rightarrow> string \<Rightarrow> pymodule option pyresult" where
  "load_test_module env fw test_path =
     (case import_module env test_path of
        Imported m \<Rightarrow> Returned (Some m) (trace (Import test_path) fw)
      | ImportRaises e \<Rightarrow>
          Returned None (emit (MErrorLoadingModule test_path e) (trace (Import test_path) fw))
      | ImportExits c \<Rightarrow> Raised (SystemExit c) (trace (Import test_path) fw))"

subsection \<open>\<^verbatim>\<open>discover_tests\<close>\<close>

text \<open>\<^verbatim>\<open>hasattr(module, 'run')\<close>: the attribute exists, whatever it is.\<close>

definition hasattr_run :: "pymodule \<Rightarrow> bool" where
  "hasattr_run m = (run_attr m \<noteq> None)"

text \<open>The body of the loop, for one entry of \<^verbatim>\<open>config['tests']\<close>.\<close>

definition discover_entry :: "environment \<Rightarrow> pyval \<Rightarrow> framework \<Rightarrow> pyval \<Rightarrow> unit pyresult" where
  "discover_entry env tests_dir fw tc =
     (case py_get tc ''enabled'' (PBool False) of
        Inl e \<Rightarrow> Raised e fw
      | Inr enabled \<Rightarrow>
        if \<not> truthy enabled then
          (case py_getitem tc ''name'' of
             Inl e \<Rightarrow> Raised e fw
           | Inr name \<Rightarrow> Returned () (emit (MSkippingDisabled name) fw))
        else
          (case py_getitem tc ''file'' of
             Inl e \<Rightarrow> Raised e fw
           | Inr test_file \<Rightarrow>
             (case os_path_join tests_dir test_file of
                Inl e \<Rightarrow> Raised e fw
              | Inr test_path \<Rightarrow>
                if \<not> path_exists env test_path then
                  Returned () (emit (MTestFileNotFound test_path) fw)
                else
                  (case load_test_module env fw test_path of
                     Raised e fw1 \<Rightarrow> Raised e fw1
                   | Returned None fw1 \<Rightarrow> Returned () (emit (MMissingRun test_file) fw1)
                   | Returned (Some m) fw1 \<Rightarrow>
                     if hasattr_run m then
                       (case py_getitem tc ''name'' of
                          Inl e \<Rightarrow> Raised e fw1
                        | Inr name \<Rightarrow>
                          if \<not> hashable name then
                            Raised (TypeError (''unhashable type: '' @ type_name name)) fw1
                          else
                            Returned () (emit (MLoadedTest name)
                              (fw1\<lparr>tests := dict_update (tests fw1) name
                                     \<lparr>module = m, test_config = tc\<rparr>\<rparr>)))
                     else Returned () (emit (MMissingRun test_file) fw1)))))"

text \<open>\<^verbatim>\<open>for test_config in self.config['tests']\<close>: an exception ends the loop.\<close>

fun discover_loop :: "environment \<Rightarrow> pyval \<Rightarrow> pyval list \<Rightarrow> framework \<Rightarrow> unit pyresult" where
  "discover_loop env tests_dir [] fw = Returned () fw"
| "discover_loop env tests_dir (tc # tcs) fw =
     (case discover_entry env tests_dir fw tc of
        Raised e fw1 \<Rightarrow> Raised e fw1
      | Returned _ fw1 \<Rightarrow> discover_loop env tests_dir tcs fw1)"

definition discover_tests :: "environment \<Rightarrow> framework \<Rightarrow> bool pyresult" where
  "discover_tests env fw =
     (case py_contains (config fw) ''tests'' of
        Inl e \<Rightarrow> Raised e fw
      | Inr False \<Rightarrow> Returned False (emit MNoTestsDefined fw)
      | Inr True \<Rightarrow>
        (case py_get (config fw) ''tests_directory'' (PStr ''tests'') of
           Inl e \<Rightarrow> Raised e fw
         | Inr tests_dir \<Rightarrow>
           (case py_getitem (config fw) ''tests'' of
              Inl e \<Rightarrow> Raised e fw
            | Inr ts \<Rightarrow>
              (case py_iter ts of
                 Inl e \<Rightarrow> Raised e fw
               | Inr tcs \<Rightarrow>
                 (case discover_loop env tests_dir tcs fw of
                    Raised e fw1 \<Rightarrow> Raised e fw1
                  | Returned _ fw1 \<Rightarrow> Returned (length (tests fw1) > 0) fw1)))))"

subsection \<open>\<^verbatim>\<open>run_test\<close>\<close>

definition success_result :: "pyval \<Rightarrow> string \<Rightarrow> pyval" where
  "success_result r ts =
     PDict [(PStr ''status'', PStr ''success''), (PStr ''result'', r), (PStr ''timestamp'', PStr ts)]"

definition error_result :: "string \<Rightarrow> string \<Rightarrow> pyval" where
  "error_result msg ts =
     PDict [(PStr ''status'', PStr ''error''), (PStr ''error'', PStr msg), (PStr ''timestamp'', PStr ts)]"

text \<open>\<^verbatim>\<open>self.results[test_name] = {..., 'timestamp': datetime.now().isoformat()}\<close>: the
  clock is read while the dict is built, then the key is hashed.\<close>

definition set_result :: "environment \<Rightarrow> framework \<Rightarrow> pyval \<Rightarrow> (string \<Rightarrow> pyval) \<Rightarrow> pyexn + framework" where
  "set_result env fw test_name mk =
     (if hashable test_name then
        Inr (fw\<lparr>results := dict_update (results fw) test_name (mk (now env (clock fw))),
                clock := clock fw + 1\<rparr>)
      else Inl (TypeError (''unhashable type: '' @ type_name test_name)))"

definition quoted :: "string \<Rightarrow> string" where
  "quoted s = [CHR 0x27] @ s @ [CHR 0x27]"

fun str_exn :: "pyexn \<Rightarrow> string" where
  "str_exn (KeyError k) = quoted k"
| "str_exn (TypeError m) = m"
| "str_exn (AttributeError m) = m"
| "str_exn (OSError m) = m"
| "str_exn (SystemExit c) = dec_int c"

text \<open>The \<^verbatim>\<open>except Exception as e\<close> branch, with \<open>msg\<close> the text of \<^verbatim>\<open>str(e)\<close>.\<close>

definition handle_error :: "environment \<Rightarrow> framework \<Rightarrow> pyval \<Rightarrow> string \<Rightarrow> unit pyresult" where
  "handle_error env fw test_name msg =
     (let fw1 = emit (MErrorExecuting test_name msg) fw in
      case set_result env fw1 test_name (error_result msg) of
        Inr fw2 \<Rightarrow> Returned () fw2
      | Inl e \<Rightarrow> Raised e (fw1\<lparr>clock := clock fw1 + 1\<rparr>))"

definition run_test :: "environment \<Rightarrow> framework \<Rightarrow> pyval \<Rightarrow> test_info \<Rightarrow> unit pyresult" where
  "run_test env fw test_name info =
     (let fw1 = emit (MRunning test_name) fw in
      case py_get (test_config info) ''parameters'' (PDict []) of
        Inl e \<Rightarrow> handle_error env fw1 test_name (str_exn e)
      | Inr params \<Rightarrow>
        (case run_attr (module info) of
           None \<Rightarrow> handle_error env fw1 test_name ''module has no attribute run''
         | Some (NonCallable t) \<Rightarrow> handle_error env fw1 test_name (quoted t @ '' object is not callable'')
         | Some (Function f) \<Rightarrow>
           (let fw2 = trace (Invoke test_name params) fw1 in
            case f params of
              RaisesSystemExit c \<Rightarrow> Raised (SystemExit c) fw2
            | RaisesException msg \<Rightarrow> handle_error env fw2 test_name msg
            | Returns r \<Rightarrow>
              (case set_result env fw2 test_name (success_result r) of
                 Inr fw3 \<Rightarrow> Returned () fw3
               | Inl e \<Rightarrow> handle_error env (fw2\<lparr>clock := clock fw2 + 1\<rparr>) test_name (str_exn e)))))"

subsection \<open>\<^verbatim>\<open>save_results\<close> and \<^verbatim>\<open>print_summary\<close>\<close>

text \<open>Everything after the lookup of \<^verbatim>\<open>output_file\<close> is inside
  \<^verbatim>\<open>try ... except Exception\<close>. When \<^verbatim>\<open>json.dump\<close> fails the file has been opened (and
  holds a part of the document at most); only a completed document is a \<open>Write\<close>.\<close>

definition save_results :: "environment \<Rightarrow> framework \<Rightarrow> unit pyresult" where
  "save_results env fw =
     (case py_get (config fw) ''output_file'' (PStr ''enumeration_results.json'') of
        Inl e \<Rightarrow> Raised e fw
      | Inr output_file \<Rightarrow>
        if \<not> open_w env output_file then Returned () (emit MErrorSaving fw)
        else
          (case json_dump (PDict (results fw)) of
             None \<Rightarrow> Returned () (emit MErrorSaving (trace (Open output_file) fw))
           | Some doc \<Rightarrow>
               Returned () (emit (MResultsSaved output_file)
                 (trace (Write output_file doc) (trace (Open output_file) fw)))))"

text \<open>\<^verbatim>\<open>sum(1 for r in self.results.values() if r['status'] == s)\<close>.\<close>

fun count_status :: "string \<Rightarrow> pyval list \<Rightarrow> pyexn + nat" where
  "count_status s [] = Inr 0"
| "count_status s (r # rs) =
     (case py_getitem r ''status'' of
        Inl e \<Rightarrow> Inl e
      | Inr st \<Rightarrow>
        (case count_status s rs of
           Inl e \<Rightarrow> Inl e
         | Inr n \<Rightarrow> Inr ((if st = PStr s then 1 else 0) + n)))"

definition print_summary :: "environment \<Rightarrow> framework \<Rightarrow> unit pyresult" where
  "print_summary env fw =
     (case count_status ''success'' (map snd (results fw)) of
        Inl e \<Rightarrow> Raised e fw
      | Inr successful \<Rightarrow>
        (case count_status ''error'' (map snd (results fw)) of
           Inl e \<Rightarrow> Raised e fw
         | Inr failed \<Rightarrow>
           (let fw1 = emit (MSummary (length (results fw)) successful failed) fw in
            case py_get (config fw1) ''save_results'' (PBool False) of
              Inl e \<Rightarrow> Raised e fw1
            | Inr sr \<Rightarrow> if truthy sr then save_results env fw1 else Returned () fw1)))"

subsection \<open>\<^verbatim>\<open>run_all_tests\<close>\<close>

text \<open>\<^verbatim>\<open>for test_name, test_info in self.tests.items()\<close>\<close>

fun run_loop :: "environment \<Rightarrow> (pyval \<times> test_info) list \<Rightarrow> framework \<Rightarrow> unit pyresult" where
  "run_loop env [] fw = Returned () fw"
| "run_loop env ((test_name, info) # ts) fw =
     (case run_test env fw test_name info of
        Raised e fw1 \<Rightarrow> Raised e fw1
      | Returned _ fw1 \<Rightarrow> run_loop env ts fw1)"

definition run_all_tests :: "environment \<Rightarrow> framework \<Rightarrow> unit pyresult" where
  "run_all_tests env fw =
     (if tests fw = [] then Returned () (emit MNoTestsToExecute fw)
      else
        (case run_loop env (tests fw) (emit (MStarting (length (tests fw))) fw) of
           Raised e fw1 \<Rightarrow> Raised e fw1
         | Returned _ fw1 \<Rightarrow> print_summary env fw1))"

section \<open>\<^verbatim>\<open>main\<close> and the exit status\<close>

text \<open>\<^verbatim>\<open>sys.argv[1] if len(sys.argv) > 1 else "config.json"\<close>\<close>

definition config_path_arg :: "environment \<Rightarrow> string" where
  "config_path_arg env = (if length (argv env) > 1 then argv env ! 1 else ''config.json'')"

definition main :: "environment \<Rightarrow> unit pyresult" where
  "main env =
     (let fw0 = emit MStart (init (config_path_arg env)) in
      case load_config env fw0 of
        Raised e fw1 \<Rightarrow> Raised e fw1
      | Returned ok fw1 \<Rightarrow>
        if \<not> ok then Raised (SystemExit 1) fw1
        else
          (case discover_tests env fw1 of
             Raised e fw2 \<Rightarrow> Raised e fw2
           | Returned found fw2 \<Rightarrow>
             if \<not> found then Raised (SystemExit 1) (emit MNoTestsLoadedExiting fw2)
             else
               (case run_all_tests env fw2 of
                  Raised e fw3 \<Rightarrow> Raised e fw3
                | Returned _ fw3 \<Rightarrow> Returned () (emit MComplete fw3))))"


section \<open>Properties of a run\<close>

subsection \<open>Results and the summary\<close>

definition payload_present :: "pyval \<Rightarrow> bool" where
  "payload_present r = (py_contains r ''result'' = Inr True)"

definition error_present :: "pyval \<Rightarrow> bool" where
  "error_present r = (py_contains r ''error'' = Inr True)"

definition check_result_inv :: "pyval \<Rightarrow> bool" where
  "check_result_inv r =
     (if py_getitem r ''status'' = Inr (PStr ''success'') then payload_present r \<and> \<not> error_present r
      else py_getitem r ''status'' = Inr (PStr ''error'') \<and> error_present r \<and> \<not> payload_present r)"

definition results_ok :: "framework \<Rightarrow> bool" where
  "results_ok fw = list_all check_result_inv (map snd (results fw))"

definition count_with_status :: "string \<Rightarrow> (pyval \<times> pyval) list \<Rightarrow> nat" where
  "count_with_status s rs = length (filter (\<lambda>(n, r). py_getitem r ''status'' = Inr (PStr s)) rs)"

fun report_event :: "event \<Rightarrow> bool" where
  "report_event (Print (MSummary t s f)) = True"
| "report_event (Write p doc) = True"
| "report_event _ = False"

fun report_checked :: "framework \<Rightarrow> event \<Rightarrow> bool" where
  "report_checked fw (Print (MSummary t s f)) =
     (t = length (results fw) \<and> s = count_with_status ''success'' (results fw) \<and>
      f = count_with_status ''error'' (results fw) \<and> s + f = t)"
| "report_checked fw (Write p doc) = (json_dump (PDict (results fw)) = Some doc)"
| "report_checked fw _ = True"

definition no_report :: "framework \<Rightarrow> bool" where
  "no_report fw = list_all (\<lambda>e. \<not> report_event e) (out fw)"

definition reports_checked :: "framework \<Rightarrow> bool" where
  "reports_checked fw = list_all (report_checked fw) (out fw)"

subsection \<open>What a loaded check does, and what is recorded for it\<close>

text \<open>What the body of the \<^verbatim>\<open>try\<close> block of \<^verbatim>\<open>run_test\<close> comes to for a loaded check:
  \<^verbatim>\<open>module.run(config.get('parameters', {}))\<close>.\<close>

definition call_check :: "test_info \<Rightarrow> call_result" where
  "call_check info =
     (case py_get (test_config info) ''parameters'' (PDict []) of
        Inl e \<Rightarrow> RaisesException (str_exn e)
      | Inr params \<Rightarrow>
        (case run_attr (module info) of
           None \<Rightarrow> RaisesException ''module has no attribute run''
         | Some (NonCallable t) \<Rightarrow> RaisesException (quoted t @ '' object is not callable'')
         | Some (Function f) \<Rightarrow> f params))"

fun exits :: "call_result \<Rightarrow> bool" where
  "exits (RaisesSystemExit c) = True"
| "exits _ = False"

text \<open>The result recorded for a check that returned or raised an exception, at clock
  reading \<open>t\<close>.\<close>

definition recorded :: "environment \<Rightarrow> test_info \<Rightarrow> nat \<Rightarrow> pyval" where
  "recorded env info t =
     (case call_check info of
        Returns r \<Rightarrow> success_result r (now env t)
      | RaisesException msg \<Rightarrow> error_result msg (now env t)
      | RaisesSystemExit c \<Rightarrow> PNone)"

fun expected_results :: "environment \<Rightarrow> nat \<Rightarrow> (pyval \<times> test_info) list \<Rightarrow> (pyval \<times> pyval) list" where
  "expected_results env t [] = []"
| "expected_results env t ((n, info) # ts) = (n, recorded env info t) # expected_results env (Suc t) ts"

fun running_name :: "event \<Rightarrow> pyval option" where
  "running_name (Print (MRunning n)) = Some n"
| "running_name _ = None"

text \<open>The names of the checks a run has started, in order.\<close>

definition executed :: "event list \<Rightarrow> pyval list" where
  "executed evs = List.map_filter running_name evs"


subsection \<open>Dicts in insertion order\<close>

text \<open>The keys of a dict as Python compares them.\<close>

definition norm_keys :: "(pyval \<times> 'v) list \<Rightarrow> pyval list" where
  "norm_keys d = map (\<lambda>p. key_norm (fst p)) d"

definition keys_hashable :: "(pyval \<times> 'v) list \<Rightarrow> bool" where
  "keys_hashable d = list_all (\<lambda>p. hashable (fst p)) d"

definition dict_wf :: "(pyval \<times> 'v) list \<Rightarrow> bool" where
  "dict_wf d = (distinct (norm_keys d) \<and> keys_hashable d)"

definition dict_keys :: "(pyval \<times> 'v) list \<Rightarrow> pyval set" where
  "dict_keys d = fst ` set d"

subsection \<open>Discovery\<close>

definition after_load :: "environment \<Rightarrow> pyval \<Rightarrow> framework" where
  "after_load env cfg =
     emit (MConfigLoaded (config_path_arg env)) ((emit MStart (init (config_path_arg env)))\<lparr>config := cfg\<rparr>)"

text \<open>The guards of \<^verbatim>\<open>discover_tests\<close>, entry by entry: the entry is enabled
  (\<^verbatim>\<open>test_config.get('enabled', False)\<close> is true), its file joined to the tests directory
  exists, the module loads, and the module has an attribute \<^verbatim>\<open>run\<close>.\<close>

definition is_enabled :: "pyval \<Rightarrow> bool" where
  "is_enabled tc = (case py_get tc ''enabled'' (PBool False) of Inr v \<Rightarrow> truthy v | Inl e \<Rightarrow> False)"

definition entry_path :: "pyval \<Rightarrow> pyval \<Rightarrow> string option" where
  "entry_path dir tc =
     (case py_getitem tc ''file'' of
        Inl e \<Rightarrow> None
      | Inr f \<Rightarrow> (case os_path_join dir f of Inl e \<Rightarrow> None | Inr p \<Rightarrow> Some p))"

definition loadable :: "environment \<Rightarrow> pyval \<Rightarrow> pyval \<Rightarrow> pymodule option" where
  "loadable env dir tc =
     (if is_enabled tc then
        (case entry_path dir tc of
           None \<Rightarrow> None
         | Some p \<Rightarrow>
           if path_exists env p then
             (case import_module env p of
                Imported m \<Rightarrow> if hasattr_run m then Some m else None
              | ImportRaises e \<Rightarrow> None
              | ImportExits c \<Rightarrow> None)
           else None)
      else None)"

text \<open>The tests directory and the entries that \<^verbatim>\<open>discover_tests\<close> reads from a
  configuration, and those of the configuration file of a run.\<close>

definition config_tests_dir :: "pyval \<Rightarrow> pyval" where
  "config_tests_dir cfg =
     (case py_get cfg ''tests_directory'' (PStr ''tests'') of Inr d \<Rightarrow> d | Inl e \<Rightarrow> PNone)"

definition config_entries :: "pyval \<Rightarrow> pyval list" where
  "config_entries cfg =
     (case py_getitem cfg ''tests'' of
        Inr ts \<Rightarrow> (case py_iter ts of Inr tcs \<Rightarrow> tcs | Inl e \<Rightarrow> [])
      | Inl e \<Rightarrow> [])"

definition tests_directory_of :: "environment \<Rightarrow> pyval" where
  "tests_directory_of env =
     (case read_json env (config_path_arg env) of Parsed cfg \<Rightarrow> config_tests_dir cfg | _ \<Rightarrow> PNone)"

definition configured_entries :: "environment \<Rightarrow> pyval list" where
  "configured_entries env =
     (case read_json env (config_path_arg env) of Parsed cfg \<Rightarrow> config_entries cfg | _ \<Rightarrow> [])"

text \<open>A registered check comes from an entry in \<open>S\<close> that passes the guards, and is filed
  under that entry's name.\<close>

definition registered :: "environment \<Rightarrow> pyval \<Rightarrow> pyval set \<Rightarrow> pyval \<times> test_info \<Rightarrow> bool" where
  "registered env dir S p =
     (test_config (snd p) \<in> S \<and> loadable env dir (test_config (snd p)) = Some (module (snd p)) \<and>
      (\<exists>n. py_getitem (test_config (snd p)) ''name'' = Inr n \<and> key_eq (fst p) n))"

text \<open>What a run registers and records: every registered check comes from an entry of the
  configuration that passes the guards, and every key of the result set is the key of a
  registered check.\<close>

definition registry_sound :: "environment \<Rightarrow> framework \<Rightarrow> bool" where
  "registry_sound env fw =
     ((\<forall>p \<in> set (tests fw). registered env (tests_directory_of env) (set (configured_entries env)) p) \<and>
      dict_keys (results fw) \<subseteq> dict_keys (tests fw))"

definition discovery_frame :: "framework \<Rightarrow> framework \<Rightarrow> bool" where
  "discovery_frame fw fw' =
     (clock fw' = clock fw \<and> config fw' = config fw \<and> results fw' = results fw \<and>
      executed (out fw') = executed (out fw) \<and> (dict_wf (tests fw) \<longrightarrow> dict_wf (tests fw')))"

fun returns_value :: "'a \<Rightarrow> 'a pyresult \<Rightarrow> bool" where
  "returns_value v (Returned w _) = (w = v)"
| "returns_value v (Raised _ _) = False"

text \<open>The same outcome with another configuration stored in the object.\<close>

fun with_config :: "pyval \<Rightarrow> 'a pyresult \<Rightarrow> 'a pyresult" where
  "with_config c (Returned v fw) = Returned v (fw\<lparr>config := c\<rparr>)"
| "with_config c (Raised e fw) = Raised e (fw\<lparr>config := c\<rparr>)"

subsection \<open>Values that survive serialisation\<close>

text \<open>The values that JSON has as they are: None, booleans, integers, strings, lists of
  such values, and dicts of such values whose keys are strings, each once.\<close>

fun is_str :: "pyval \<Rightarrow> bool" where
  "is_str (PStr _) = True"
| "is_str _ = False"

fun json_native :: "pyval \<Rightarrow> bool"
  and json_native_list :: "pyval list \<Rightarrow> bool"
  and json_native_items :: "(pyval \<times> pyval) list \<Rightarrow> bool" where
  "json_native PNone = True"
| "json_native (PBool b) = True"
| "json_native (PInt i) = True"
| "json_native (PStr s) = True"
| "json_native (PList xs) = json_native_list xs"
| "json_native (PTuple xs) = False"
| "json_native (PDict d) = (json_native_items d \<and> distinct (map fst d))"
| "json_native (PObject t) = False"
| "json_native_list [] = True"
| "json_native_list (x # xs) = (json_native x \<and> json_native_list xs)"
| "json_native_items [] = True"
| "json_native_items ((k, v) # d) = (is_str k \<and> json_native v \<and> json_native_items d)"

section \<open>Sample runs\<close>

text \<open>
  A configuration with nine entries: \<open>A\<close> returns, \<open>B\<close> raises, \<open>C\<close> returns, \<open>D\<close> is
  disabled, the file of \<open>E\<close> does not exist, the file of \<open>F\<close> fails to load, the module
  of \<open>G\<close> has no \<^verbatim>\<open>run\<close>, \<open>H\<close> has no \<^verbatim>\<open>enabled\<close> field, and the last entry
  uses the name \<open>A\<close> again with the file of \<open>C\<close>.
\<close>

definition demo_entry :: "string \<Rightarrow> string \<Rightarrow> (pyval \<times> pyval) list \<Rightarrow> pyval" where
  "demo_entry n f kvs = PDict ([(PStr ''name'', PStr n), (PStr ''file'', PStr f)] @ kvs)"

definition demo_config :: pyval where
  "demo_config = PDict
     [(PStr ''tests'', PList
        [demo_entry ''A'' ''a.py'' [(PStr ''enabled'', PBool True),
                                   (PStr ''parameters'', PDict [(PStr ''verbose'', PBool True)])],
         demo_entry ''B'' ''b.py'' [(PStr ''enabled'', PBool True)],
         demo_entry ''C'' ''c.py'' [(PStr ''enabled'', PBool True), (PStr ''parameters'', PDict [])],
         demo_entry ''D'' ''d.py'' [(PStr ''enabled'', PBool False)],
         demo_entry ''E'' ''e.py'' [(PStr ''enabled'', PBool True)],
         demo_entry ''F'' ''f.py'' [(PStr ''enabled'', PBool True)],
         demo_entry ''G'' ''g.py'' [(PStr ''enabled'', PBool True)],
         demo_entry ''H'' ''h.py'' [],
         demo_entry ''A'' ''c.py'' [(PStr ''enabled'', PBool True)]]),
      (PStr ''save_results'', PBool True)]"

definition module_a :: pymodule where
  "module_a = \<lparr>run_attr = Some (Function (\<lambda>params. Returns (PDict [(PStr ''status'', PStr ''completed'')])))\<rparr>"

definition module_b :: pymodule where
  "module_b = \<lparr>run_attr = Some (Function (\<lambda>params. RaisesException ''boom''))\<rparr>"

definition module_c :: pymodule where
  "module_c = \<lparr>run_attr = Some (Function (\<lambda>params. Returns (PList [PStr ''finding'', params])))\<rparr>"

definition module_g :: pymodule where
  "module_g = \<lparr>run_attr = None\<rparr>"

definition demo_env :: environment where
  "demo_env =
     \<lparr>argv = [''main.py''],
      read_json = (\<lambda>p. if p = ''config.json'' then Parsed demo_config else NotFound),
      path_exists = (\<lambda>p. p \<noteq> ''tests/e.py''),
      import_module = (\<lambda>p. if p = ''tests/a.py'' then Imported module_a
                           else if p = ''tests/b.py'' then Imported module_b
                           else if p = ''tests/c.py'' then Imported module_c
                           else if p = ''tests/g.py'' then Imported module_g
                           else ImportRaises ''invalid syntax''),
      now = (\<lambda>n. ''2025-01-01T00:00:0'' @ dec_nat n),
      open_w = (\<lambda>p. True)\<rparr>"








text \<open>A disabled entry and an enabled one under the same name.\<close>

definition shadow_env :: environment where
  "shadow_env = demo_env\<lparr>read_json := (\<lambda>p. Parsed (PDict [(PStr ''tests'', PList
      [demo_entry ''A'' ''a.py'' [(PStr ''enabled'', PBool False)],
       demo_entry ''A'' ''c.py'' [(PStr ''enabled'', PBool True)]])]))\<rparr>"

text \<open>A run that saves its results, with one check in \<^verbatim>\<open>a.py\<close>.\<close>

definition saving_env :: "pymodule \<Rightarrow> environment" where
  "saving_env m =
     \<lparr>argv = [''main.py''],
      read_json = (\<lambda>p. Parsed (PDict
        [(PStr ''tests'', PList [demo_entry ''A'' ''a.py'' [(PStr ''enabled'', PBool True)]]),
         (PStr ''save_results'', PBool True)])),
      path_exists = (\<lambda>p. True),
      import_module = (\<lambda>p. Imported m),
      now = (\<lambda>n. ''2025-01-01T00:00:0'' @ dec_nat n),
      open_w = (\<lambda>p. True)\<rparr>"

text \<open>\<^verbatim>\<open>def run(params): return {22: 'open'}\<close>\<close>

definition module_ports :: pymodule where
  "module_ports = \<lparr>run_attr = Some (Function (\<lambda>params. Returns (PDict [(PInt 22, PStr ''open'')])))\<rparr>"

text \<open>A configuration in which \<open>A\<close> has no \<^verbatim>\<open>enabled\<close> field and \<open>B\<close> no
  \<^verbatim>\<open>parameters\<close>, and which has neither \<^verbatim>\<open>tests_directory\<close> nor \<^verbatim>\<open>save_results\<close>.\<close>

definition defaults_env :: environment where
  "defaults_env = demo_env\<lparr>read_json := (\<lambda>p. Parsed (PDict [(PStr ''tests'', PList
      [demo_entry ''A'' ''a.py'' [],
       demo_entry ''B'' ''b.py'' [(PStr ''enabled'', PBool True)]])]))\<rparr>"

section \<open>Dictionaries and invariants of the result set\<close>

lemma key_eq_refl [simp]: "key_eq k k" by (simp add: key_eq_def)
lemma key_eq_sym: "key_eq a b \<Longrightarrow> key_eq b a" by (simp add: key_eq_def)
lemma key_eq_trans: "key_eq a b \<Longrightarrow> key_eq b c \<Longrightarrow> key_eq a c" by (simp add: key_eq_def)

lemma key_eq_PStr [simp]: "key_eq (PStr s) k \<longleftrightarrow> k = PStr s"
  by (cases k) (auto simp: key_eq_def)
lemma key_eq_PStr2 [simp]: "key_eq k (PStr s) \<longleftrightarrow> k = PStr s"
  by (cases k) (auto simp: key_eq_def)

lemma dict_lookup_update:
  "dict_lookup (dict_update d k v) k' = (if key_eq k k' then Some v else dict_lookup d k')"
  by (induction d) (auto simp: key_eq_def)

lemma dict_update_keys:
  "map fst (dict_update d k v) = (if dict_lookup d k = None then map fst d @ [k] else map fst d)"
  by (induction d) (auto split: if_splits)

lemma dict_update_append:
  "dict_lookup d k = None \<Longrightarrow> dict_update d k v = d @ [(k, v)]"
  by (induction d) (auto split: if_splits)

lemma dict_update_set:
  "(k', v') \<in> set (dict_update d k v) \<Longrightarrow> (k', v') \<in> set d \<or> v' = v"
  by (induction d) (auto split: if_splits)

lemma success_result_inv [simp]: "check_result_inv (success_result r ts)"
  by (simp add: check_result_inv_def success_result_def payload_present_def error_present_def)
lemma error_result_inv [simp]: "check_result_inv (error_result m ts)"
  by (simp add: check_result_inv_def error_result_def payload_present_def error_present_def)

lemma results_ok_update:
  "results_ok fw \<Longrightarrow> check_result_inv r \<Longrightarrow>
   results_ok (fw\<lparr>results := dict_update (results fw) k r, clock := c\<rparr>)"
  by (auto simp: results_ok_def list_all_iff dest!: dict_update_set)

lemma set_result_ok:
  "results_ok fw \<Longrightarrow> (\<And>ts. check_result_inv (mk ts)) \<Longrightarrow> set_result env fw n mk = Inr fw' \<Longrightarrow> results_ok fw'"
  by (auto simp: set_result_def results_ok_update split: if_splits)

lemma results_ok_upd [simp]:
  "results_ok (fw\<lparr>out := x\<rparr>) = results_ok fw"
  "results_ok (fw\<lparr>clock := c\<rparr>) = results_ok fw"
  "results_ok (fw\<lparr>config := cf\<rparr>) = results_ok fw"
  "results_ok (fw\<lparr>tests := t\<rparr>) = results_ok fw"
  by (simp_all add: results_ok_def)

lemma handle_error_ok: "results_ok fw \<Longrightarrow> results_ok (state_of (handle_error env fw n msg))"
  by (auto simp: handle_error_def Let_def emit_def split: sum.splits dest!: set_result_ok[rotated 2])

lemma run_test_ok: "results_ok fw \<Longrightarrow> results_ok (state_of (run_test env fw n info))"
  by (auto simp: run_test_def Let_def emit_def trace_def handle_error_ok
      split: sum.splits option.splits pyattr.splits call_result.splits
      dest!: set_result_ok[rotated 2])

lemma emit_fields [simp]:
  "results (emit m fw) = results fw" "tests (emit m fw) = tests fw"
  "config (emit m fw) = config fw" "clock (emit m fw) = clock fw"
  "config_path (emit m fw) = config_path fw" "out (emit m fw) = out fw @ [Print m]"
  by (simp_all add: emit_def)

lemma trace_fields [simp]:
  "results (trace e fw) = results fw" "tests (trace e fw) = tests fw"
  "config (trace e fw) = config fw" "clock (trace e fw) = clock fw"
  "config_path (trace e fw) = config_path fw" "out (trace e fw) = out fw @ [e]"
  by (simp_all add: trace_def)

lemma results_ok_emit [simp]: "results_ok (emit m fw) = results_ok fw"
  by (simp add: results_ok_def)

lemma discover_loop_preserves:
  assumes "\<And>fw tc. I fw \<Longrightarrow> I (state_of (discover_entry env d fw tc))" and "I fw"
  shows "I (state_of (discover_loop env d tcs fw))"
  using assms(2)
proof (induction tcs arbitrary: fw)
  case Nil
  then show ?case by simp
next
  case (Cons tc tcs)
  from assms(1)[OF Cons.prems, of tc] show ?case
    by (cases "discover_entry env d fw tc") (simp_all add: Cons.IH)
qed

lemma run_loop_preserves:
  assumes "\<And>fw n info. I fw \<Longrightarrow> I (state_of (run_test env fw n info))" and "I fw"
  shows "I (state_of (run_loop env ts fw))"
  using assms(2)
proof (induction ts arbitrary: fw)
  case Nil
  then show ?case by simp
next
  case (Cons t ts)
  obtain n info where t: "t = (n, info)" by (cases t)
  from assms(1)[OF Cons.prems, of n info] show ?case
    by (cases "run_test env fw n info") (simp_all add: t Cons.IH)
qed

lemma load_config_results: "results (state_of (load_config env fw)) = results fw"
  by (simp add: load_config_def emit_def split: config_source.splits)

lemma load_test_module_results: "results (state_of (load_test_module env fw p)) = results fw"
  by (simp add: load_test_module_def emit_def trace_def split: import_result.splits)

lemma discover_entry_results: "results (state_of (discover_entry env d fw tc)) = results fw"
proof -
  have *: "\<And>p r fw1. load_test_module env fw p = r \<Longrightarrow> state_of r = fw1 \<Longrightarrow> results fw1 = results fw"
    using load_test_module_results by blast
  show ?thesis
    by (auto simp: discover_entry_def emit_def split: sum.splits pyresult.splits option.splits dest: *)
qed

lemma discover_loop_results: "results (state_of (discover_loop env d tcs fw)) = results fw"
proof -
  have "(\<lambda>f. results f = results fw) (state_of (discover_loop env d tcs fw))"
    by (rule discover_loop_preserves) (simp_all add: discover_entry_results)
  then show ?thesis .
qed

lemma discover_tests_results: "results (state_of (discover_tests env fw)) = results fw"
proof -
  have *: "\<And>d tcs r fw1. discover_loop env d tcs fw = r \<Longrightarrow> state_of r = fw1 \<Longrightarrow> results fw1 = results fw"
    using discover_loop_results by blast
  show ?thesis
    by (auto simp: discover_tests_def emit_def split: sum.splits pyresult.splits bool.splits dest: *)
qed

lemma save_results_results: "results (state_of (save_results env fw)) = results fw"
  by (simp add: save_results_def emit_def trace_def split: sum.splits option.splits)

lemma print_summary_results: "results (state_of (print_summary env fw)) = results fw"
proof -
  have *: "\<And>f r fw1. save_results env f = r \<Longrightarrow> state_of r = fw1 \<Longrightarrow> results fw1 = results f"
    using save_results_results by blast
  show ?thesis
    by (auto simp: print_summary_def emit_def Let_def save_results_results split: sum.splits)
qed

lemma run_loop_ok: "results_ok fw \<Longrightarrow> results_ok (state_of (run_loop env ts fw))"
  by (rule run_loop_preserves) (simp_all add: run_test_ok)

lemma results_ok_cong: "results fw' = results fw \<Longrightarrow> results_ok fw' = results_ok fw"
  by (simp add: results_ok_def)

lemma run_all_tests_ok: "results_ok fw \<Longrightarrow> results_ok (state_of (run_all_tests env fw))"
proof -
  assume a: "results_ok fw"
  have l: "results_ok (state_of (run_loop env (tests fw) (emit (MStarting (length (tests fw))) fw)))"
    by (rule run_loop_ok) (simp add: emit_def a)
  show ?thesis
  proof (cases "run_loop env (tests fw) (emit (MStarting (length (tests fw))) fw)")
    case (Returned u fw1)
    with l have "results_ok fw1" by simp
    then have "results_ok (state_of (print_summary env fw1))"
      by (simp add: results_ok_cong[OF print_summary_results])
    with Returned show ?thesis by (simp add: run_all_tests_def emit_def a)
  next
    case (Raised e fw1)
    with l show ?thesis by (simp add: run_all_tests_def emit_def a)
  qed
qed

lemma main_results_ok: "results_ok (state_of (main env))"
proof -
  define fw0 where "fw0 = emit MStart (init (config_path_arg env))"
  have 0: "results_ok fw0" by (simp add: fw0_def emit_def init_def results_ok_def)
  have 1: "results_ok (state_of (load_config env fw0))"
    using 0 by (simp add: results_ok_cong[OF load_config_results])
  show ?thesis
  proof (cases "load_config env fw0")
    case (Raised e fw1)
    with 1 show ?thesis by (simp add: main_def fw0_def[symmetric])
  next
    case L: (Returned ok fw1)
    with 1 have r1: "results_ok fw1" by simp
    then have 2: "results_ok (state_of (discover_tests env fw1))"
      by (simp add: results_ok_cong[OF discover_tests_results])
    show ?thesis
    proof (cases "discover_tests env fw1")
      case (Raised e fw2)
      with 2 L r1 show ?thesis by (simp add: main_def fw0_def[symmetric])
    next
      case D: (Returned found fw2)
      with 2 have r2: "results_ok fw2" by simp
      from run_all_tests_ok[OF r2, of env] D L r1 r2 show ?thesis
        by (cases "run_all_tests env fw2") (simp_all add: main_def fw0_def[symmetric])
    qed
  qed
qed

lemma no_report_checked: "no_report fw \<Longrightarrow> reports_checked fw"
  unfolding no_report_def reports_checked_def list_all_iff
proof
  fix e assume a: "\<forall>e\<in>set (out fw). \<not> report_event e" and e: "e \<in> set (out fw)"
  then have "\<not> report_event e" by blast
  then show "report_checked fw e" by (cases "(fw, e)" rule: report_checked.cases) auto
qed

lemma no_report_emit [simp]:
  "no_report (emit m fw) = (no_report fw \<and> \<not> report_event (Print m))"
  by (auto simp: no_report_def)

lemma no_report_trace [simp]:
  "no_report (trace e fw) = (no_report fw \<and> \<not> report_event e)"
  by (auto simp: no_report_def)

lemma no_report_upd [simp]:
  "no_report (fw\<lparr>config := c\<rparr>) = no_report fw"
  "no_report (fw\<lparr>tests := t\<rparr>) = no_report fw"
  "no_report (fw\<lparr>results := r\<rparr>) = no_report fw"
  "no_report (fw\<lparr>clock := k\<rparr>) = no_report fw"
  by (simp_all add: no_report_def)

lemma load_config_no_report: "no_report fw \<Longrightarrow> no_report (state_of (load_config env fw))"
  by (simp add: load_config_def split: config_source.splits)

lemma load_test_module_no_report: "no_report fw \<Longrightarrow> no_report (state_of (load_test_module env fw p))"
  by (simp add: load_test_module_def split: import_result.splits)

lemma discover_entry_no_report:
  assumes "no_report fw" shows "no_report (state_of (discover_entry env d fw tc))"
proof -
  have *: "\<And>p r fw1. load_test_module env fw p = r \<Longrightarrow> state_of r = fw1 \<Longrightarrow> no_report fw1"
    using load_test_module_no_report[OF assms] by blast
  show ?thesis using assms
    by (auto simp: discover_entry_def split: sum.splits pyresult.splits option.splits dest: *)
qed

lemma discover_loop_no_report: "no_report fw \<Longrightarrow> no_report (state_of (discover_loop env d tcs fw))"
  by (rule discover_loop_preserves) (simp_all add: discover_entry_no_report)

lemma discover_tests_no_report:
  assumes "no_report fw" shows "no_report (state_of (discover_tests env fw))"
proof -
  have *: "\<And>d tcs r fw1. discover_loop env d tcs fw = r \<Longrightarrow> state_of r = fw1 \<Longrightarrow> no_report fw1"
    using discover_loop_no_report[OF assms] by blast
  show ?thesis using assms
    by (auto simp: discover_tests_def split: sum.splits pyresult.splits bool.splits dest: *)
qed

lemma set_result_no_report: "set_result env fw n mk = Inr fw' \<Longrightarrow> no_report fw' = no_report fw"
  by (auto simp: set_result_def no_report_def split: if_splits)

lemma handle_error_no_report: "no_report fw \<Longrightarrow> no_report (state_of (handle_error env fw n msg))"
  by (auto simp: handle_error_def Let_def split: sum.splits dest: set_result_no_report)

lemma run_test_no_report: "no_report fw \<Longrightarrow> no_report (state_of (run_test env fw n info))"
  by (auto simp: run_test_def Let_def handle_error_no_report
      split: sum.splits option.splits pyattr.splits call_result.splits
      dest: set_result_no_report)

lemma run_loop_no_report: "no_report fw \<Longrightarrow> no_report (state_of (run_loop env ts fw))"
  by (rule run_loop_preserves) (simp_all add: run_test_no_report)

lemma check_result_inv_status:
  "check_result_inv r \<Longrightarrow>
   py_getitem r ''status'' = Inr (PStr ''success'') \<or> py_getitem r ''status'' = Inr (PStr ''error'')"
  by (auto simp: check_result_inv_def split: if_splits)

lemma count_status_eq:
  "list_all check_result_inv (map snd rs) \<Longrightarrow>
   count_status s (map snd rs) = Inr (count_with_status s rs)"
  by (induction rs) (auto simp: count_with_status_def dest: check_result_inv_status)

lemma count_with_status_sum:
  "list_all check_result_inv (map snd rs) \<Longrightarrow>
   count_with_status ''success'' rs + count_with_status ''error'' rs = length rs"
  by (induction rs) (auto simp: count_with_status_def dest: check_result_inv_status)

lemma reports_checked_cong:
  "results fw' = results fw \<Longrightarrow> out fw' = out fw @ evs \<Longrightarrow> list_all (report_checked fw) evs \<Longrightarrow>
   reports_checked fw \<Longrightarrow> reports_checked fw'"
proof -
  assume r: "results fw' = results fw" and o: "out fw' = out fw @ evs"
     and e: "list_all (report_checked fw) evs" and c: "reports_checked fw"
  have "report_checked fw' = report_checked fw"
  proof
    fix e show "report_checked fw' e = report_checked fw e"
      by (cases "(fw, e)" rule: report_checked.cases) (simp_all add: r)
  qed
  then show ?thesis using o e c by (simp add: reports_checked_def)
qed

lemma save_results_checked:
  "reports_checked fw \<Longrightarrow> reports_checked (state_of (save_results env fw))"
  by (auto simp: save_results_def split: sum.splits option.splits
      intro!: reports_checked_cong[where fw = fw])

lemma print_summary_checked:
  assumes "results_ok fw" and "no_report fw"
  shows "reports_checked (state_of (print_summary env fw))"
proof -
  from assms(1) have ok: "list_all check_result_inv (map snd (results fw))"
    by (simp add: results_ok_def)
  let ?s = "count_with_status ''success'' (results fw)"
  let ?f = "count_with_status ''error'' (results fw)"
  let ?fw1 = "emit (MSummary (length (results fw)) ?s ?f) fw"
  have 1: "reports_checked ?fw1"
    by (rule reports_checked_cong[where fw = fw and evs = "[Print (MSummary (length (results fw)) ?s ?f)]"])
       (simp_all add: count_with_status_sum[OF ok] no_report_checked[OF assms(2)])
  show ?thesis
    using 1 save_results_checked[OF 1, of env]
    by (simp add: print_summary_def count_status_eq[OF ok] Let_def split: sum.splits)
qed

lemma run_all_tests_checked:
  assumes "results_ok fw" and "no_report fw"
  shows "reports_checked (state_of (run_all_tests env fw))"
proof (cases "tests fw = []")
  case True
  then show ?thesis using assms(2) by (simp add: run_all_tests_def no_report_checked)
next
  case False
  let ?fw0 = "emit (MStarting (length (tests fw))) fw"
  have ok: "results_ok (state_of (run_loop env (tests fw) ?fw0))"
    by (rule run_loop_ok) (simp add: assms)
  have nr: "no_report (state_of (run_loop env (tests fw) ?fw0))"
    by (rule run_loop_no_report) (simp add: assms)
  show ?thesis
  proof (cases "run_loop env (tests fw) ?fw0")
    case (Returned u fw1)
    with ok nr print_summary_checked[of fw1 env] False show ?thesis
      by (simp add: run_all_tests_def)
  next
    case (Raised e fw1)
    with nr False show ?thesis by (simp add: run_all_tests_def no_report_checked)
  qed
qed

lemma reports_checked_emit:
  "reports_checked fw \<Longrightarrow> \<not> report_event (Print m) \<Longrightarrow> reports_checked (emit m fw)"
  by (rule reports_checked_cong[where fw = fw and evs = "[Print m]"])
     (auto elim: report_event.elims)

lemma main_reports_checked: "reports_checked (state_of (main env))"
proof -
  define fw0 where "fw0 = emit MStart (init (config_path_arg env))"
  have 0: "results_ok fw0" "no_report fw0"
    by (simp_all add: fw0_def init_def results_ok_def no_report_def emit_def)
  have 1: "results_ok (state_of (load_config env fw0))" "no_report (state_of (load_config env fw0))"
    using 0 by (simp_all add: results_ok_cong[OF load_config_results] load_config_no_report)
  show ?thesis
  proof (cases "load_config env fw0")
    case (Raised e fw1)
    with 1 show ?thesis by (simp add: main_def fw0_def[symmetric] no_report_checked)
  next
    case L: (Returned ok fw1)
    with 1 have r1: "results_ok fw1" "no_report fw1" by simp_all
    then have 2: "results_ok (state_of (discover_tests env fw1))" "no_report (state_of (discover_tests env fw1))"
      by (simp_all add: results_ok_cong[OF discover_tests_results] discover_tests_no_report)
    show ?thesis
    proof (cases "discover_tests env fw1")
      case (Raised e fw2)
      with 2 L r1 show ?thesis by (simp add: main_def fw0_def[symmetric] no_report_checked)
    next
      case D: (Returned found fw2)
      with 2 have r2: "results_ok fw2" "no_report fw2" by simp_all
      from run_all_tests_checked[OF r2, of env] D L r1 r2 show ?thesis
        by (cases "run_all_tests env fw2")
           (simp_all add: main_def fw0_def[symmetric] no_report_checked reports_checked_emit)
    qed
  qed
qed

section \<open>The shape of a run\<close>

lemma set_result_values:
  "set_result env fw n mk = Inr fw' \<Longrightarrow> r \<in> snd ` set (results fw') \<Longrightarrow>
   r \<in> snd ` set (results fw) \<or> r = mk (now env (clock fw))"
  by (auto simp: set_result_def split: if_splits dest!: dict_update_set intro: rev_image_eqI)

lemma handle_error_values:
  "r \<in> snd ` set (results (state_of (handle_error env fw n msg))) \<Longrightarrow>
   r \<in> snd ` set (results fw) \<or> check_result_inv r"
  by (auto simp: handle_error_def Let_def split: sum.splits dest!: set_result_values)

lemma run_test_values:
  "r \<in> snd ` set (results (state_of (run_test env fw n info))) \<Longrightarrow>
   r \<in> snd ` set (results fw) \<or> check_result_inv r"
  by (auto simp: run_test_def Let_def
      split: sum.splits option.splits pyattr.splits call_result.splits
      dest!: set_result_values handle_error_values)

lemma demo_results:
  "results (state_of (main demo_env)) =
     [(PStr ''A'', success_result (PList [PStr ''finding'', PDict []]) ''2025-01-01T00:00:00''),
      (PStr ''B'', error_result ''boom'' ''2025-01-01T00:00:01''),
      (PStr ''C'', success_result (PList [PStr ''finding'', PDict []]) ''2025-01-01T00:00:02'')]"
  by code_simp

lemma load_config_cases:
  "load_config env (emit MStart (init (config_path_arg env))) = Returned True fw1 \<longleftrightarrow>
     (\<exists>cfg. read_json env (config_path_arg env) = Parsed cfg \<and> fw1 = after_load env cfg)"
  by (auto simp: load_config_def after_load_def init_def emit_def split: config_source.splits)

lemma main_Returned:
  assumes "main env = Returned u fw'"
  shows "\<exists>cfg fw2 fw3. read_json env (config_path_arg env) = Parsed cfg \<and>
           discover_tests env (after_load env cfg) = Returned True fw2 \<and>
           run_all_tests env fw2 = Returned () fw3 \<and> fw' = emit MComplete fw3"
proof -
  let ?fw0 = "emit MStart (init (config_path_arg env))"
  from assms obtain ok fw1 where L: "load_config env ?fw0 = Returned ok fw1"
    by (cases "load_config env ?fw0") (auto simp: main_def)
  with assms have ok: "ok" by (auto simp: main_def split: if_splits)
  with L obtain cfg where c: "read_json env (config_path_arg env) = Parsed cfg" "fw1 = after_load env cfg"
    using load_config_cases by auto
  from assms L ok obtain found fw2 where D: "discover_tests env fw1 = Returned found fw2"
    by (cases "discover_tests env fw1") (auto simp: main_def)
  with assms L ok have f: "found" by (auto simp: main_def split: if_splits)
  from assms L ok D f obtain fw3 where R: "run_all_tests env fw2 = Returned () fw3" "fw' = emit MComplete fw3"
    by (cases "run_all_tests env fw2") (auto simp: main_def)
  from c D f R show ?thesis by auto
qed

lemma save_results_out: "\<exists>evs. out (state_of (save_results env fw)) = out fw @ evs"
  by (auto simp: save_results_def split: sum.splits option.splits)

lemma print_summary_prints:
  assumes "print_summary env fw = Returned u fw'"
  shows "\<exists>t s f. Print (MSummary t s f) \<in> set (out fw')"
proof -
  from assms obtain s where s: "count_status ''success'' (map snd (results fw)) = Inr s"
    by (cases "count_status ''success'' (map snd (results fw))") (auto simp: print_summary_def)
  from assms s obtain f where f: "count_status ''error'' (map snd (results fw)) = Inr f"
    by (cases "count_status ''error'' (map snd (results fw))") (auto simp: print_summary_def)
  let ?fw1 = "emit (MSummary (length (results fw)) s f) fw"
  from assms s f have "fw' = ?fw1 \<or> fw' = state_of (save_results env ?fw1)"
    by (auto simp: print_summary_def Let_def split: sum.splits if_splits)
  moreover obtain evs where "out (state_of (save_results env ?fw1)) = out ?fw1 @ evs"
    using save_results_out by blast
  ultimately have "Print (MSummary (length (results fw)) s f) \<in> set (out fw')" by auto
  then show ?thesis by blast
qed

lemma discover_tests_True:
  "discover_tests env fw = Returned True fw' \<Longrightarrow> tests fw' \<noteq> []"
  by (auto simp: discover_tests_def split: sum.splits bool.splits pyresult.splits)

lemma main_prints_summary:
  assumes "main env = Returned u fw'"
  shows "\<exists>t s f. Print (MSummary t s f) \<in> set (out fw')"
proof -
  from main_Returned[OF assms] obtain cfg fw2 fw3 where
    D: "discover_tests env (after_load env cfg) = Returned True fw2" and
    R: "run_all_tests env fw2 = Returned () fw3" and F: "fw' = emit MComplete fw3" by blast
  from discover_tests_True[OF D] have ne: "tests fw2 \<noteq> []" .
  with R obtain fwr where "print_summary env fwr = Returned () fw3"
    by (auto simp: run_all_tests_def split: pyresult.splits)
  from print_summary_prints[OF this] F show ?thesis by auto
qed

lemma norm_keys_simps [simp]:
  "norm_keys [] = []" "norm_keys ((k, v) # d) = key_norm k # norm_keys d"
  "norm_keys (d @ d') = norm_keys d @ norm_keys d'"
  by (simp_all add: norm_keys_def)

lemma keys_hashable_simps [simp]:
  "keys_hashable []" "keys_hashable ((k, v) # d) = (hashable k \<and> keys_hashable d)"
  by (simp_all add: keys_hashable_def)

lemma dict_lookup_None_iff:
  "dict_lookup d k = None \<longleftrightarrow> key_norm k \<notin> set (norm_keys d)"
  by (induction d) (auto simp: key_eq_def split: if_splits)

lemma dict_update_norm_keys:
  "set (norm_keys (dict_update d k v)) = insert (key_norm k) (set (norm_keys d))"
  by (induction d) (auto simp: key_eq_def split: if_splits)

lemma dict_update_distinct:
  "distinct (norm_keys d) \<Longrightarrow> distinct (norm_keys (dict_update d k v))"
proof (induction d)
  case Nil
  then show ?case by simp
next
  case (Cons p d)
  obtain k' v' where p: "p = (k', v')" by (cases p)
  show ?case
  proof (cases "key_eq k' k")
    case True
    with Cons.prems p show ?thesis by simp
  next
    case False
    from Cons.prems p have 1: "key_norm k' \<notin> set (norm_keys d)" and 2: "distinct (norm_keys d)"
      by auto
    from False have 3: "key_norm k' \<noteq> key_norm k" by (simp add: key_eq_def)
    have "key_norm k' \<notin> set (norm_keys (dict_update d k v))"
      using 1 3 by (simp only: dict_update_norm_keys) auto
    with Cons.IH[OF 2] False p show ?thesis by auto
  qed
qed

lemma dict_update_hashable:
  "keys_hashable d \<Longrightarrow> hashable k \<Longrightarrow> keys_hashable (dict_update d k v)"
  by (induction d) auto

lemma dict_wf_update: "dict_wf d \<Longrightarrow> hashable k \<Longrightarrow> dict_wf (dict_update d k v)"
  by (simp add: dict_wf_def dict_update_distinct dict_update_hashable)

lemma dict_wf_Nil [simp]: "dict_wf []"
  by (simp add: dict_wf_def)

lemma executed_append [simp]: "executed (xs @ ys) = executed xs @ executed ys"
  by (simp add: executed_def map_filter_def)

lemma executed_simps [simp]:
  "executed [] = []"
  "executed (Print (MRunning n) # evs) = n # executed evs"
  by (simp_all add: executed_def map_filter_simps)

lemma executed_other: "running_name e = None \<Longrightarrow> executed (e # evs) = executed evs"
  by (simp add: executed_def map_filter_simps)

text \<open>What \<^verbatim>\<open>run_test\<close> does for a name that can be hashed.\<close>

lemma run_test_exits:
  assumes "call_check info = RaisesSystemExit c"
  shows "\<exists>fw'. run_test env fw n info = Raised (SystemExit c) fw' \<and> results fw' = results fw"
  using assms
  by (auto simp: run_test_def call_check_def Let_def
      split: sum.splits option.splits pyattr.splits call_result.splits)

lemma handle_error_records:
  assumes "hashable n"
  shows "\<exists>fw'. handle_error env fw n msg = Returned () fw' \<and>
           results fw' = dict_update (results fw) n (error_result msg (now env (clock fw))) \<and>
           clock fw' = Suc (clock fw) \<and> tests fw' = tests fw \<and> config fw' = config fw \<and>
           executed (out fw') = executed (out fw)"
  using assms by (simp add: handle_error_def set_result_def Let_def executed_other)

lemma run_test_records:
  assumes "hashable n" and "\<not> exits (call_check info)"
  shows "\<exists>fw'. run_test env fw n info = Returned () fw' \<and>
           results fw' = dict_update (results fw) n (recorded env info (clock fw)) \<and>
           clock fw' = Suc (clock fw) \<and> tests fw' = tests fw \<and> config fw' = config fw \<and>
           executed (out fw') = executed (out fw) @ [n]"
proof (cases "py_get (test_config info) ''parameters'' (PDict [])")
  case (Inl e)
  with handle_error_records[OF assms(1), of env "emit (MRunning n) fw" "str_exn e"]
  show ?thesis
    by (auto simp: run_test_def Let_def recorded_def call_check_def)
next
  case (Inr params)
  show ?thesis
  proof (cases "run_attr (module info)")
    case None
    with Inr handle_error_records[OF assms(1), of env "emit (MRunning n) fw" "''module has no attribute run''"]
    show ?thesis
      by (auto simp: run_test_def Let_def recorded_def call_check_def)
  next
    case (Some a)
    show ?thesis
    proof (cases a)
      case (NonCallable t)
      with Some Inr handle_error_records[OF assms(1), of env "emit (MRunning n) fw" "quoted t @ '' object is not callable''"]
      show ?thesis
        by (auto simp: run_test_def Let_def recorded_def call_check_def)
    next
      case (Function f)
      let ?fw2 = "trace (Invoke n params) (emit (MRunning n) fw)"
      show ?thesis
      proof (cases "f params")
        case (Returns r)
        with Function Some Inr assms(1) show ?thesis
          by (simp add: run_test_def Let_def recorded_def call_check_def set_result_def executed_other)
      next
        case (RaisesException msg)
        with Function Some Inr handle_error_records[OF assms(1), of env ?fw2 msg]
        show ?thesis
          by (auto simp: run_test_def Let_def recorded_def call_check_def executed_other)
      next
        case (RaisesSystemExit c)
        with Function Some Inr assms(2) show ?thesis by (simp add: call_check_def)
      qed
    qed
  qed
qed

lemma run_loop_records:
  assumes "keys_hashable ts" and "list_all (\<lambda>(n, info). \<not> exits (call_check info)) ts"
      and "distinct (norm_keys ts)"
      and "\<forall>k \<in> fst ` set ts. dict_lookup (results fw) k = None"
  shows "\<exists>fw'. run_loop env ts fw = Returned () fw' \<and>
           results fw' = results fw @ expected_results env (clock fw) ts \<and>
           clock fw' = clock fw + length ts \<and> tests fw' = tests fw \<and> config fw' = config fw \<and>
           executed (out fw') = executed (out fw) @ map fst ts"
  using assms
proof (induction ts arbitrary: fw)
  case Nil
  then show ?case by simp
next
  case (Cons t ts)
  obtain n info where t: "t = (n, info)" by (cases t)
  from Cons.prems t have h: "hashable n" and e: "\<not> exits (call_check info)" by auto
  from run_test_records[OF h e, of env fw] obtain fw1 where
    r: "run_test env fw n info = Returned () fw1" and
    rs: "results fw1 = dict_update (results fw) n (recorded env info (clock fw))" and
    c: "clock fw1 = Suc (clock fw)" and f: "tests fw1 = tests fw" "config fw1 = config fw" and
    x: "executed (out fw1) = executed (out fw) @ [n]" by blast
  from Cons.prems(4) t have "dict_lookup (results fw) n = None" by auto
  then have rs': "results fw1 = results fw @ [(n, recorded env info (clock fw))]"
    using rs by (simp add: dict_update_append)
  have fresh: "\<forall>k \<in> fst ` set ts. dict_lookup (results fw1) k = None"
  proof
    fix k assume k: "k \<in> fst ` set ts"
    with Cons.prems(4) have 1: "dict_lookup (results fw) k = None" by auto
    from k Cons.prems(3) t have "key_norm n \<noteq> key_norm k" by (auto simp: norm_keys_def image_iff)
    with 1 show "dict_lookup (results fw1) k = None"
      by (simp add: rs dict_lookup_update key_eq_def)
  qed
  from Cons.prems t have p: "keys_hashable ts"
    "list_all (\<lambda>(n, info). \<not> exits (call_check info)) ts" "distinct (norm_keys ts)"
    by auto
  from Cons.IH[OF p fresh] obtain fw' where
    "run_loop env ts fw1 = Returned () fw'"
    "results fw' = results fw1 @ expected_results env (clock fw1) ts"
    "clock fw' = clock fw1 + length ts" "tests fw' = tests fw1" "config fw' = config fw1"
    "executed (out fw') = executed (out fw1) @ map fst ts" by blast
  with r rs' c f x t show ?case by simp
qed

lemma discovery_frame_refl [simp]: "discovery_frame fw fw"
  by (simp add: discovery_frame_def)

lemma discovery_frame_trans:
  "discovery_frame fw fw1 \<Longrightarrow> discovery_frame fw1 fw2 \<Longrightarrow> discovery_frame fw fw2"
  by (simp add: discovery_frame_def)

lemma discovery_frame_emit:
  "running_name (Print m) = None \<Longrightarrow> discovery_frame fw fw1 \<Longrightarrow> discovery_frame fw (emit m fw1)"
  by (simp add: discovery_frame_def executed_other)

lemma discovery_frame_trace:
  "running_name e = None \<Longrightarrow> discovery_frame fw fw1 \<Longrightarrow> discovery_frame fw (trace e fw1)"
  by (simp add: discovery_frame_def executed_other)

lemma discovery_frame_register:
  "hashable k \<Longrightarrow> discovery_frame fw fw1 \<Longrightarrow>
   discovery_frame fw (fw1\<lparr>tests := dict_update (tests fw1) k v\<rparr>)"
  by (simp add: discovery_frame_def dict_wf_update)

lemma load_test_module_frame: "discovery_frame fw (state_of (load_test_module env fw p))"
  by (simp add: load_test_module_def discovery_frame_emit discovery_frame_trace
      split: import_result.splits)

lemma discover_entry_frame: "discovery_frame fw (state_of (discover_entry env d fw tc))"
proof -
  have *: "\<And>p r fw1. load_test_module env fw p = r \<Longrightarrow> state_of r = fw1 \<Longrightarrow> discovery_frame fw fw1"
    using load_test_module_frame by blast
  show ?thesis
    by (auto simp: discover_entry_def split: sum.splits pyresult.splits option.splits
        intro!: discovery_frame_emit discovery_frame_register dest: *)
qed

lemma discover_loop_frame: "discovery_frame fw (state_of (discover_loop env d tcs fw))"
proof -
  have "discovery_frame fw fw" by simp
  then show ?thesis
    by (rule discover_loop_preserves[where I = "discovery_frame fw", rotated])
       (erule discovery_frame_trans, rule discover_entry_frame)
qed

lemma discover_tests_frame: "discovery_frame fw (state_of (discover_tests env fw))"
proof -
  have *: "\<And>d tcs r fw1. discover_loop env d tcs fw = r \<Longrightarrow> state_of r = fw1 \<Longrightarrow> discovery_frame fw fw1"
    using discover_loop_frame by blast
  show ?thesis
    by (auto simp: discover_tests_def split: sum.splits pyresult.splits bool.splits
        intro!: discovery_frame_emit dest: *)
qed

lemma discover_tests_config:
  "discover_tests env fw = Returned True fw' \<Longrightarrow> \<exists>d. config fw = PDict d"
  by (cases "config fw") (auto simp: discover_tests_def split: sum.splits bool.splits pyresult.splits)

lemma discover_tests_found:
  "discover_tests env fw = Returned found fw' \<Longrightarrow> tests fw = [] \<Longrightarrow> found = (tests fw' \<noteq> [])"
  by (auto simp: discover_tests_def split: sum.splits bool.splits pyresult.splits)

lemma after_load_fields [simp]:
  "tests (after_load env cfg) = []" "results (after_load env cfg) = []"
  "clock (after_load env cfg) = 0" "config (after_load env cfg) = cfg"
  "executed (out (after_load env cfg)) = []"
  by (simp_all add: after_load_def init_def emit_def executed_other)

lemma save_results_returns:
  "config fw = PDict d \<Longrightarrow> \<exists>fw'. save_results env fw = Returned () fw' \<and> results fw' = results fw \<and>
     tests fw' = tests fw \<and> executed (out fw') = executed (out fw)"
  by (simp add: save_results_def executed_other split: option.splits)

lemma print_summary_returns:
  assumes "results_ok fw" and "config fw = PDict d"
  shows "\<exists>fw'. print_summary env fw = Returned () fw' \<and> results fw' = results fw \<and>
     tests fw' = tests fw \<and> executed (out fw') = executed (out fw)"
proof -
  from assms(1) have ok: "list_all check_result_inv (map snd (results fw))"
    by (simp add: results_ok_def)
  let ?fw1 = "emit (MSummary (length (results fw)) (count_with_status ''success'' (results fw))
                 (count_with_status ''error'' (results fw))) fw"
  from save_results_returns[of ?fw1 d env] assms(2) obtain fw' where
    "save_results env ?fw1 = Returned () fw'" "results fw' = results fw" "tests fw' = tests fw"
    "executed (out fw') = executed (out fw)" by (auto simp: executed_other)
  with assms(2) show ?thesis
    by (simp add: print_summary_def count_status_eq[OF ok] Let_def executed_other)
qed

lemma expected_results_ok: "list_all (\<lambda>(n, info). \<not> exits (call_check info)) ts \<Longrightarrow>
  list_all check_result_inv (map snd (expected_results env t ts))"
proof (induction ts arbitrary: t)
  case Nil
  then show ?case by simp
next
  case (Cons p ts)
  obtain n info where p: "p = (n, info)" by (cases p)
  with Cons.prems have "\<not> exits (call_check info)" by simp
  then have "check_result_inv (recorded env info t)"
    by (cases "call_check info") (simp_all add: recorded_def)
  with Cons p show ?case by simp
qed

lemma run_all_tests_records:
  assumes "dict_wf (tests fw)" and "list_all (\<lambda>(n, info). \<not> exits (call_check info)) (tests fw)"
      and "results fw = []" and "config fw = PDict d" and "tests fw \<noteq> []"
  shows "\<exists>fw'. run_all_tests env fw = Returned () fw' \<and>
           results fw' = expected_results env (clock fw) (tests fw) \<and> tests fw' = tests fw \<and>
           executed (out fw') = executed (out fw) @ map fst (tests fw)"
proof -
  let ?fw0 = "emit (MStarting (length (tests fw))) fw"
  from assms(1) have w: "keys_hashable (tests fw)" "distinct (norm_keys (tests fw))"
    by (simp_all add: dict_wf_def)
  have fresh: "\<forall>k \<in> fst ` set (tests fw). dict_lookup (results ?fw0) k = None"
    by (simp add: assms(3))
  from run_loop_records[OF w(1) assms(2) w(2) fresh, of env] obtain fw1 where
    l: "run_loop env (tests fw) ?fw0 = Returned () fw1" and
    r: "results fw1 = expected_results env (clock fw) (tests fw)" and
    t: "tests fw1 = tests fw" and c: "config fw1 = config fw" and
    x: "executed (out fw1) = executed (out fw) @ map fst (tests fw)"
    by (auto simp: assms(3) executed_other)
  have "results_ok fw1"
    by (simp add: results_ok_def r expected_results_ok[OF assms(2)])
  from print_summary_returns[OF this, of d env] c assms(4) obtain fw' where
    "print_summary env fw1 = Returned () fw'" "results fw' = results fw1" "tests fw' = tests fw1"
    "executed (out fw') = executed (out fw1)" by auto
  with l r t x assms(5) show ?thesis by (simp add: run_all_tests_def)
qed

lemma main_normal_run:
  assumes "read_json env (config_path_arg env) = Parsed cfg"
      and "discover_tests env (after_load env cfg) = Returned found fw"
      and "tests fw \<noteq> []"
      and "list_all (\<lambda>(n, info). \<not> exits (call_check info)) (tests fw)"
  shows "\<exists>fw'. main env = Returned () fw' \<and> results fw' = expected_results env 0 (tests fw) \<and>
           tests fw' = tests fw \<and> executed (out fw') = map fst (tests fw)"
proof -
  from discover_tests_found[OF assms(2)] assms(3) have f: "found" by simp
  from discover_tests_frame[of "after_load env cfg" env] assms(2)
  have fr: "discovery_frame (after_load env cfg) fw" by simp
  then have fields: "clock fw = 0" "config fw = cfg" "results fw = []" "executed (out fw) = []"
    "dict_wf (tests fw)" by (simp_all add: discovery_frame_def)
  from discover_tests_config assms(2) f obtain d where d: "cfg = PDict d" by fastforce
  from run_all_tests_records[OF fields(5) assms(4) fields(3) _ assms(3), of d env] fields d
  obtain fw3 where
    r: "run_all_tests env fw = Returned () fw3" "results fw3 = expected_results env 0 (tests fw)"
       "tests fw3 = tests fw" "executed (out fw3) = map fst (tests fw)" by auto
  have L: "load_config env (emit MStart (init (config_path_arg env))) = Returned True (after_load env cfg)"
    using assms(1) by (simp add: load_config_cases)
  from L assms(2) f r show ?thesis
    by (simp add: main_def executed_other)
qed



lemma returns_valueD: "returns_value v r \<Longrightarrow> r = Returned v (state_of r)"
  by (cases r) auto

lemma expected_results_length [simp]: "length (expected_results env t ts) = length ts"
  by (induction ts arbitrary: t) auto





section \<open>What discovery registers\<close>

lemma dict_keys_Nil [simp]: "dict_keys [] = {}"
  by (simp add: dict_keys_def)

lemma dict_keys_update: "dict_keys (dict_update d k v) \<subseteq> insert k (dict_keys d)"
proof -
  have "set (map fst (dict_update d k v)) \<subseteq> insert k (set (map fst d))"
    by (simp only: dict_update_keys) auto
  then show ?thesis by (simp add: dict_keys_def)
qed

lemma dict_update_set_key:
  "(k', v') \<in> set (dict_update d k v) \<Longrightarrow> (k', v') \<in> set d \<or> (v' = v \<and> key_eq k' k)"
  by (induction d) (auto split: if_splits)

lemma discover_entry_loadable:
  assumes "loadable env dir tc = Some m" and "py_getitem tc ''name'' = Inr n" and "hashable n"
      and "entry_path dir tc = Some p"
  shows "discover_entry env dir fw tc =
           Returned () (emit (MLoadedTest n)
             ((trace (Import p) fw)\<lparr>tests := dict_update (tests fw) n \<lparr>module = m, test_config = tc\<rparr>\<rparr>))"
  using assms
  by (auto simp: discover_entry_def loadable_def is_enabled_def entry_path_def load_test_module_def
      split: sum.splits if_splits option.splits import_result.splits)

lemma discover_entry_registry:
  "tests (state_of (discover_entry env dir fw tc)) = tests fw \<or>
   (\<exists>m n. loadable env dir tc = Some m \<and> py_getitem tc ''name'' = Inr n \<and> hashable n \<and>
      tests (state_of (discover_entry env dir fw tc)) = dict_update (tests fw) n \<lparr>module = m, test_config = tc\<rparr>)"
  by (auto simp: discover_entry_def loadable_def is_enabled_def entry_path_def load_test_module_def
      split: sum.splits if_splits option.splits import_result.splits)

lemma registered_mono: "registered env dir S p \<Longrightarrow> S \<subseteq> T \<Longrightarrow> registered env dir T p"
  by (auto simp: registered_def)

lemma discover_entry_registered:
  assumes "\<forall>p \<in> set (tests fw). registered env dir S p"
  shows "\<forall>p \<in> set (tests (state_of (discover_entry env dir fw tc))). registered env dir (insert tc S) p"
proof -
  from discover_entry_registry[of env dir fw tc]
  show ?thesis
  proof
    assume "tests (state_of (discover_entry env dir fw tc)) = tests fw"
    with assms show ?thesis by (auto intro: registered_mono)
  next
    assume "\<exists>m n. loadable env dir tc = Some m \<and> py_getitem tc ''name'' = Inr n \<and> hashable n \<and>
      tests (state_of (discover_entry env dir fw tc)) = dict_update (tests fw) n \<lparr>module = m, test_config = tc\<rparr>"
    then obtain m n where l: "loadable env dir tc = Some m" and nm: "py_getitem tc ''name'' = Inr n"
      and t: "tests (state_of (discover_entry env dir fw tc)) = dict_update (tests fw) n \<lparr>module = m, test_config = tc\<rparr>"
      by blast
    show ?thesis
    proof
      fix p assume "p \<in> set (tests (state_of (discover_entry env dir fw tc)))"
      then have "(fst p, snd p) \<in> set (dict_update (tests fw) n \<lparr>module = m, test_config = tc\<rparr>)"
        by (simp add: t)
      from dict_update_set_key[OF this]
      show "registered env dir (insert tc S) p"
      proof
        assume "(fst p, snd p) \<in> set (tests fw)"
        with assms show ?thesis by (auto intro: registered_mono)
      next
        assume "snd p = \<lparr>module = m, test_config = tc\<rparr> \<and> key_eq (fst p) n"
        with l nm show ?thesis by (auto simp: registered_def)
      qed
    qed
  qed
qed

lemma discover_loop_registered:
  "\<forall>p \<in> set (tests fw). registered env dir S p \<Longrightarrow>
   \<forall>p \<in> set (tests (state_of (discover_loop env dir tcs fw))). registered env dir (S \<union> set tcs) p"
proof (induction tcs arbitrary: fw S)
  case Nil
  then show ?case by simp
next
  case (Cons tc tcs)
  from discover_entry_registered[OF Cons.prems, of tc]
  have 1: "\<forall>p \<in> set (tests (state_of (discover_entry env dir fw tc))). registered env dir (insert tc S) p" .
  show ?case
  proof (cases "discover_entry env dir fw tc")
    case (Returned u fw1)
    with 1 have "\<forall>p \<in> set (tests fw1). registered env dir (insert tc S) p" by simp
    from Cons.IH[OF this] Returned show ?thesis by simp
  next
    case (Raised e fw1)
    with 1 show ?thesis by (auto intro: registered_mono)
  qed
qed

lemma discover_tests_loop:
  assumes "discover_tests env fw = Returned True fw'"
  shows "discover_loop env (config_tests_dir (config fw)) (config_entries (config fw)) fw = Returned () fw'"
  using assms
  by (auto simp: discover_tests_def config_tests_dir_def config_entries_def
      split: sum.splits bool.splits pyresult.splits)

lemma discover_tests_registered:
  assumes "tests fw = []"
  shows "\<forall>p \<in> set (tests (state_of (discover_tests env fw))).
           registered env (config_tests_dir (config fw)) (set (config_entries (config fw))) p"
proof -
  have L: "\<And>dir tcs r. discover_loop env dir tcs fw = r \<Longrightarrow>
      \<forall>p \<in> set (tests (state_of r)). registered env dir (set tcs) p"
    using discover_loop_registered[of fw env _ "{}"] assms by auto
  show ?thesis
    using assms
    by (auto simp: discover_tests_def config_tests_dir_def config_entries_def
        split: sum.splits bool.splits pyresult.splits dest!: L)
qed

lemma set_result_keys:
  "set_result env fw n mk = Inr fw' \<Longrightarrow>
   tests fw' = tests fw \<and> dict_keys (results fw') \<subseteq> insert n (dict_keys (results fw))"
  by (auto simp: set_result_def split: if_splits dest: subsetD[OF dict_keys_update])

lemma handle_error_frame:
  "tests (state_of (handle_error env fw n msg)) = tests fw \<and>
   dict_keys (results (state_of (handle_error env fw n msg))) \<subseteq> insert n (dict_keys (results fw))"
proof (cases "set_result env (emit (MErrorExecuting n msg) fw) n (error_result msg)")
  case (Inl e)
  then show ?thesis by (auto simp: handle_error_def Let_def)
next
  case (Inr fw2)
  from set_result_keys[OF this] Inr show ?thesis by (simp add: handle_error_def Let_def)
qed

lemma run_test_frame:
  "tests (state_of (run_test env fw n info)) = tests fw \<and>
   dict_keys (results (state_of (run_test env fw n info))) \<subseteq> insert n (dict_keys (results fw))"
proof -
  let ?fw1 = "emit (MRunning n) fw"
  note h = handle_error_frame
  show ?thesis
  proof (cases "py_get (test_config info) ''parameters'' (PDict [])")
    case (Inl e)
    with h[of env ?fw1 n "str_exn e"] show ?thesis by (simp add: run_test_def Let_def)
  next
    case (Inr params)
    show ?thesis
    proof (cases "run_attr (module info)")
      case None
      with Inr h[of env ?fw1 n "''module has no attribute run''"] show ?thesis
        by (simp add: run_test_def Let_def)
    next
      case (Some a)
      show ?thesis
      proof (cases a)
        case (NonCallable t)
        with Some Inr h[of env ?fw1 n "quoted t @ '' object is not callable''"] show ?thesis
          by (simp add: run_test_def Let_def)
      next
        case (Function f)
        let ?fw2 = "trace (Invoke n params) ?fw1"
        show ?thesis
        proof (cases "f params")
          case (RaisesSystemExit c)
          with Function Some Inr show ?thesis by (auto simp: run_test_def Let_def)
        next
          case (RaisesException msg)
          with Function Some Inr h[of env ?fw2 n msg] show ?thesis
            by (simp add: run_test_def Let_def)
        next
          case (Returns r)
          show ?thesis
          proof (cases "set_result env ?fw2 n (success_result r)")
            case (Inl e)
            with Returns Function Some Inr h[of env "?fw2\<lparr>clock := clock ?fw2 + 1\<rparr>" n "str_exn e"]
            show ?thesis by (simp add: run_test_def Let_def)
          next
            case (Inr fw3)
            from set_result_keys[OF this] Inr Returns Function Some \<open>py_get (test_config info) ''parameters'' (PDict []) = Inr params\<close>
            show ?thesis by (simp add: run_test_def Let_def)
          qed
        qed
      qed
    qed
  qed
qed

lemma run_loop_frame:
  "tests (state_of (run_loop env ts fw)) = tests fw \<and>
   dict_keys (results (state_of (run_loop env ts fw))) \<subseteq> dict_keys ts \<union> dict_keys (results fw)"
proof (induction ts arbitrary: fw)
  case Nil
  then show ?case by simp
next
  case (Cons t ts)
  obtain n info where t: "t = (n, info)" by (cases t)
  have k: "dict_keys (t # ts) = insert n (dict_keys ts)" by (simp add: t dict_keys_def)
  note f = run_test_frame[of env fw n info]
  show ?case
  proof (cases "run_test env fw n info")
    case (Returned u fw1)
    with f have 1: "tests fw1 = tests fw" "dict_keys (results fw1) \<subseteq> insert n (dict_keys (results fw))"
      by simp_all
    from Cons.IH[of fw1] have 2: "tests (state_of (run_loop env ts fw1)) = tests fw1"
      "dict_keys (results (state_of (run_loop env ts fw1))) \<subseteq> dict_keys ts \<union> dict_keys (results fw1)"
      by simp_all
    from 1 2 have "dict_keys (results (state_of (run_loop env ts fw1))) \<subseteq> dict_keys (t # ts) \<union> dict_keys (results fw)"
      unfolding k by blast
    with 1 2 Returned t show ?thesis by simp
  next
    case (Raised e fw1)
    with f have "tests fw1 = tests fw" "dict_keys (results fw1) \<subseteq> dict_keys (t # ts) \<union> dict_keys (results fw)"
      unfolding k by auto
    with Raised t show ?thesis by simp
  qed
qed

lemma save_results_tests: "tests (state_of (save_results env fw)) = tests fw"
  by (simp add: save_results_def split: sum.splits option.splits)

lemma print_summary_tests: "tests (state_of (print_summary env fw)) = tests fw"
  by (auto simp: print_summary_def Let_def save_results_tests split: sum.splits)

lemma run_all_tests_frame:
  "tests (state_of (run_all_tests env fw)) = tests fw \<and>
   dict_keys (results (state_of (run_all_tests env fw))) \<subseteq> dict_keys (tests fw) \<union> dict_keys (results fw)"
proof (cases "tests fw = []")
  case True
  then show ?thesis by (simp add: run_all_tests_def)
next
  case False
  let ?fw0 = "emit (MStarting (length (tests fw))) fw"
  note f = run_loop_frame[of env "tests fw" ?fw0]
  show ?thesis
  proof (cases "run_loop env (tests fw) ?fw0")
    case (Returned u fw1)
    with f False show ?thesis
      by (simp add: run_all_tests_def print_summary_tests print_summary_results)
  next
    case (Raised e fw1)
    with f False show ?thesis by (simp add: run_all_tests_def)
  qed
qed

lemma registry_sound_empty: "tests fw = [] \<Longrightarrow> results fw = [] \<Longrightarrow> registry_sound env fw"
  by (simp add: registry_sound_def)

lemma load_config_tests: "tests (state_of (load_config env fw)) = tests fw"
  by (simp add: load_config_def split: config_source.splits)

lemma main_registry_sound: "registry_sound env (state_of (main env))"
proof -
  define fw0 where "fw0 = emit MStart (init (config_path_arg env))"
  have 0: "tests fw0 = []" "results fw0 = []" by (simp_all add: fw0_def init_def)
  have 1: "tests (state_of (load_config env fw0)) = []" "results (state_of (load_config env fw0)) = []"
    using 0 by (simp_all add: load_config_tests load_config_results)
  show ?thesis
  proof (cases "load_config env fw0")
    case (Raised e fw1)
    with 1 show ?thesis by (simp add: main_def fw0_def[symmetric] registry_sound_empty)
  next
    case L: (Returned ok fw1)
    show ?thesis
    proof (cases ok)
      case False
      with L 1 show ?thesis by (simp add: main_def fw0_def[symmetric] registry_sound_empty)
    next
      case True
      with L obtain cfg where c: "read_json env (config_path_arg env) = Parsed cfg" "fw1 = after_load env cfg"
        using load_config_cases[of env fw1] by (auto simp: fw0_def)
      let ?fw2 = "state_of (discover_tests env fw1)"
      from c have dir: "tests_directory_of env = config_tests_dir (config fw1)"
        and ent: "configured_entries env = config_entries (config fw1)"
        by (simp_all add: tests_directory_of_def configured_entries_def)
      from discover_tests_registered[of fw1 env] c(2)
      have reg: "\<forall>p \<in> set (tests ?fw2). registered env (tests_directory_of env) (set (configured_entries env)) p"
        by (simp add: dir ent)
      have res: "results ?fw2 = []" using c(2) by (simp add: discover_tests_results)
      from reg res have s2: "registry_sound env ?fw2" by (simp add: registry_sound_def)
      show ?thesis
      proof (cases "discover_tests env fw1")
        case (Raised e fw2)
        with s2 L True show ?thesis by (simp add: main_def fw0_def[symmetric])
      next
        case D: (Returned found fw2)
        with s2 have s: "registry_sound env fw2" and r: "results fw2 = []" using res by simp_all
        show ?thesis
        proof (cases found)
          case False
          with D L True s show ?thesis
            by (simp add: main_def fw0_def[symmetric] registry_sound_def)
        next
          case F: True
          note f = run_all_tests_frame[of env fw2]
          from f s r have "registry_sound env (state_of (run_all_tests env fw2))"
            by (simp add: registry_sound_def)
          with D L True F show ?thesis
            by (cases "run_all_tests env fw2") (simp_all add: main_def fw0_def[symmetric] registry_sound_def)
        qed
      qed
    qed
  qed
qed

lemma py_getitem_get: "py_getitem tc k = Inr v \<Longrightarrow> py_get tc k dflt = Inr v"
  by (cases tc) (auto split: option.splits)

lemma not_enabled_not_loadable: "\<not> is_enabled tc \<Longrightarrow> loadable env dir tc = None"
  by (simp add: loadable_def)

lemma unregistered_entry:
  assumes "loadable env (tests_directory_of env) tc = None"
  shows "\<forall>(k, info) \<in> set (tests (state_of (main env))). test_config info \<noteq> tc"
proof -
  from main_registry_sound[of env]
  have "\<forall>p \<in> set (tests (state_of (main env))).
          registered env (tests_directory_of env) (set (configured_entries env)) p"
    by (simp add: registry_sound_def)
  with assms show ?thesis by (fastforce simp: registered_def)
qed

lemma result_keys_enabled:
  "\<forall>k \<in> dict_keys (results (state_of (main env))).
     \<exists>tc' \<in> set (configured_entries env). is_enabled tc' \<and>
        (\<exists>n'. py_getitem tc' ''name'' = Inr n' \<and> key_eq k n')"
proof
  fix k assume "k \<in> dict_keys (results (state_of (main env)))"
  with main_registry_sound[of env] obtain info where
    i: "(k, info) \<in> set (tests (state_of (main env)))"
    by (auto simp: registry_sound_def dict_keys_def)
  with main_registry_sound[of env]
  have r: "registered env (tests_directory_of env) (set (configured_entries env)) (k, info)"
    by (auto simp: registry_sound_def)
  then have "is_enabled (test_config info)"
    by (auto simp: registered_def loadable_def split: if_splits)
  with r show "\<exists>tc' \<in> set (configured_entries env). is_enabled tc' \<and>
        (\<exists>n'. py_getitem tc' ''name'' = Inr n' \<and> key_eq k n')"
    by (auto simp: registered_def)
qed

lemma skip_disabled:
  assumes "py_get tc ''enabled'' (PBool False) = Inr v" and "\<not> truthy v"
  shows "discover_entry env dir fw tc =
     (case py_getitem tc ''name'' of
        Inr n \<Rightarrow> Returned () (emit (MSkippingDisabled n) fw)
      | Inl e \<Rightarrow> Raised e fw)"
  using assms by (simp add: discover_entry_def split: sum.splits)

lemma demo_tests_dir: "tests_directory_of demo_env = PStr ''tests''"
  by code_simp

lemma demo_test_configs:
  "map (\<lambda>(k, info). test_config info) (tests (state_of (main demo_env))) =
     [demo_entry ''A'' ''c.py'' [(PStr ''enabled'', PBool True)],
      demo_entry ''B'' ''b.py'' [(PStr ''enabled'', PBool True)],
      demo_entry ''C'' ''c.py'' [(PStr ''enabled'', PBool True), (PStr ''parameters'', PDict [])]]"
  by code_simp

lemma dict_lookup_append:
  "dict_lookup (d @ [(k, v)]) k' =
     (case dict_lookup d k' of Some x \<Rightarrow> Some x | None \<Rightarrow> if key_eq k k' then Some v else None)"
  by (induction d) auto

lemma discover_loop_append:
  "discover_loop env dir (xs @ ys) fw =
     (case discover_loop env dir xs fw of
        Raised e f \<Rightarrow> Raised e f
      | Returned u f \<Rightarrow> discover_loop env dir ys f)"
  by (induction xs arbitrary: fw) (auto split: pyresult.splits)

lemma discover_entry_registers:
  assumes "loadable env dir tc = Some m" and "py_getitem tc ''name'' = Inr n"
      and "discover_entry env dir fw tc = Returned u fw'"
  shows "hashable n \<and> tests fw' = dict_update (tests fw) n \<lparr>module = m, test_config = tc\<rparr>"
  using assms
  by (auto simp: discover_entry_def loadable_def is_enabled_def entry_path_def load_test_module_def
      split: sum.splits if_splits option.splits import_result.splits)

lemma discover_loop_keeps_lookup:
  assumes "\<forall>tc \<in> set tcs. \<forall>n'. py_getitem tc ''name'' = Inr n' \<longrightarrow> \<not> key_eq n' n"
  shows "dict_lookup (tests (state_of (discover_loop env dir tcs fw))) n = dict_lookup (tests fw) n"
  using assms
proof (induction tcs arbitrary: fw)
  case Nil
  then show ?case by simp
next
  case (Cons tc tcs)
  have 1: "dict_lookup (tests (state_of (discover_entry env dir fw tc))) n = dict_lookup (tests fw) n"
    using discover_entry_registry[of env dir fw tc] Cons.prems
    by (auto simp: dict_lookup_update)
  from Cons.prems have 2: "\<forall>tc \<in> set tcs. \<forall>n'. py_getitem tc ''name'' = Inr n' \<longrightarrow> \<not> key_eq n' n"
    by simp
  show ?case
  proof (cases "discover_entry env dir fw tc")
    case (Returned u fw1)
    with 1 Cons.IH[OF 2, of fw1] show ?thesis by simp
  next
    case (Raised e fw1)
    with 1 show ?thesis by simp
  qed
qed

lemma last_entry_wins:
  assumes "discover_loop env dir (pre @ tc2 # post) fw = Returned u fw'"
      and "loadable env dir tc2 = Some m2" and "py_getitem tc2 ''name'' = Inr n"
      and "\<forall>tc \<in> set post. \<forall>n'. py_getitem tc ''name'' = Inr n' \<longrightarrow> \<not> key_eq n' n"
  shows "dict_lookup (tests fw') n = Some \<lparr>module = m2, test_config = tc2\<rparr>"
proof -
  from assms(1) obtain u1 fw1 where 1: "discover_loop env dir pre fw = Returned u1 fw1"
    and r: "discover_loop env dir (tc2 # post) fw1 = Returned u fw'"
    by (auto simp: discover_loop_append split: pyresult.splits)
  from r obtain u2 fw2 where 2: "discover_entry env dir fw1 tc2 = Returned u2 fw2"
    and 3: "discover_loop env dir post fw2 = Returned u fw'"
    by (auto split: pyresult.splits)
  from discover_entry_registers[OF assms(2,3) 2]
  have "dict_lookup (tests fw2) n = Some \<lparr>module = m2, test_config = tc2\<rparr>"
    by (simp add: dict_lookup_update)
  with discover_loop_keeps_lookup[OF assms(4), of env dir fw2] 3 show ?thesis by simp
qed

lemma run_loop_Returned_no_exits:
  assumes "keys_hashable ts" and "run_loop env ts fw = Returned u fw'"
  shows "list_all (\<lambda>(n, info). \<not> exits (call_check info)) ts"
  using assms
proof (induction ts arbitrary: fw)
  case Nil
  then show ?case by simp
next
  case (Cons t ts)
  obtain n info where t: "t = (n, info)" by (cases t)
  from Cons.prems t have h: "hashable n" "keys_hashable ts" by simp_all
  have ne: "\<not> exits (call_check info)"
  proof
    assume "exits (call_check info)"
    then obtain c where "call_check info = RaisesSystemExit c" by (cases "call_check info") auto
    from run_test_exits[OF this, of env fw n] Cons.prems(2) t show False by auto
  qed
  from run_test_records[OF h(1) ne, of env fw] obtain fw1 where
    "run_test env fw n info = Returned () fw1" by blast
  with Cons.prems(2) t have "run_loop env ts fw1 = Returned u fw'" by simp
  from Cons.IH[OF h(2) this] ne t show ?case by simp
qed

lemma expected_results_keys [simp]: "map fst (expected_results env t ts) = map fst ts"
  by (induction ts arbitrary: t) auto

lemma expected_results_norm_keys [simp]: "norm_keys (expected_results env t ts) = norm_keys ts"
  by (induction ts arbitrary: t) auto

lemma expected_results_lookup:
  "dict_lookup ts n = Some info \<Longrightarrow>
   \<exists>i. dict_lookup (expected_results env t ts) n = Some (recorded env info (t + i))"
proof (induction ts arbitrary: t)
  case Nil
  then show ?case by simp
next
  case (Cons p ts)
  obtain k v where p: "p = (k, v)" by (cases p)
  show ?case
  proof (cases "key_eq k n")
    case True
    with Cons.prems p have "dict_lookup (expected_results env t (p # ts)) n = Some (recorded env info (t + 0))"
      by simp
    then show ?thesis by blast
  next
    case False
    with Cons.prems p have "dict_lookup ts n = Some info" by simp
    from Cons.IH[OF this, of "Suc t"] obtain i where
      "dict_lookup (expected_results env (Suc t) ts) n = Some (recorded env info (Suc t + i))" by blast
    with False p have "dict_lookup (expected_results env t (p # ts)) n = Some (recorded env info (t + Suc i))"
      by simp
    then show ?thesis by blast
  qed
qed

lemma one_key:
  "distinct (norm_keys d) \<Longrightarrow> dict_lookup d n = Some v \<Longrightarrow>
   length (filter (\<lambda>k. key_eq k n) (map fst d)) = 1"
proof (induction d)
  case Nil
  then show ?case by simp
next
  case (Cons p d)
  obtain k w where p: "p = (k, w)" by (cases p)
  show ?case
  proof (cases "key_eq k n")
    case True
    from Cons.prems(1) p have "key_norm k \<notin> set (norm_keys d)" by simp
    with True have "key_norm n \<notin> set (norm_keys d)" by (simp add: key_eq_def)
    then have "filter (\<lambda>k. key_eq k n) (map fst d) = []"
      by (force simp: filter_empty_conv norm_keys_def key_eq_def image_iff)
    with True p show ?thesis by simp
  next
    case False
    with Cons p show ?thesis by simp
  qed
qed

lemma main_Returned_run:
  assumes "main env = Returned u fw'"
  shows "\<exists>cfg fw2. discover_loop env (tests_directory_of env) (configured_entries env) (after_load env cfg) = Returned () fw2 \<and>
           dict_wf (tests fw2) \<and> tests fw' = tests fw2 \<and>
           results fw' = expected_results env 0 (tests fw2) \<and>
           executed (out fw') = map fst (tests fw2)"
proof -
  from main_Returned[OF assms] obtain cfg fw2 fw3 where
    c: "read_json env (config_path_arg env) = Parsed cfg" and
    d: "discover_tests env (after_load env cfg) = Returned True fw2" and
    r: "run_all_tests env fw2 = Returned () fw3" and f: "fw' = emit MComplete fw3" by blast
  from discover_tests_loop[OF d] c
  have l: "discover_loop env (tests_directory_of env) (configured_entries env) (after_load env cfg) = Returned () fw2"
    by (simp add: tests_directory_of_def configured_entries_def)
  from discover_tests_frame[of "after_load env cfg" env] d
  have w: "dict_wf (tests fw2)" by (simp add: discovery_frame_def)
  from discover_tests_True[OF d] have ne: "tests fw2 \<noteq> []" .
  with r obtain fw1 where rl: "run_loop env (tests fw2) (emit (MStarting (length (tests fw2))) fw2) = Returned () fw1"
    by (auto simp: run_all_tests_def split: pyresult.splits)
  from w have "keys_hashable (tests fw2)" by (simp add: dict_wf_def)
  from run_loop_Returned_no_exits[OF this rl]
  have ex: "list_all (\<lambda>(n, info). \<not> exits (call_check info)) (tests fw2)" .
  from main_normal_run[OF c d ne ex] assms l w show ?thesis by auto
qed

lemma demo_main_returns: "returns_value () (main demo_env)"
  by code_simp

lemma demo_entries:
  "configured_entries demo_env =
     [demo_entry ''A'' ''a.py'' [(PStr ''enabled'', PBool True),
                                 (PStr ''parameters'', PDict [(PStr ''verbose'', PBool True)])],
      demo_entry ''B'' ''b.py'' [(PStr ''enabled'', PBool True)],
      demo_entry ''C'' ''c.py'' [(PStr ''enabled'', PBool True), (PStr ''parameters'', PDict [])],
      demo_entry ''D'' ''d.py'' [(PStr ''enabled'', PBool False)],
      demo_entry ''E'' ''e.py'' [(PStr ''enabled'', PBool True)],
      demo_entry ''F'' ''f.py'' [(PStr ''enabled'', PBool True)],
      demo_entry ''G'' ''g.py'' [(PStr ''enabled'', PBool True)],
      demo_entry ''H'' ''h.py'' []] @
     demo_entry ''A'' ''c.py'' [(PStr ''enabled'', PBool True)] # []"
  by code_simp

lemma demo_last_loadable:
  "loadable demo_env (PStr ''tests'') (demo_entry ''A'' ''c.py'' [(PStr ''enabled'', PBool True)]) = Some module_c"
  by (simp add: loadable_def is_enabled_def entry_path_def demo_entry_def demo_env_def
      hasattr_run_def module_c_def key_eq_def)

section \<open>The persisted report\<close>

lemma dict_lookup_PStr_None:
  "dict_lookup d (PStr s) = None \<longleftrightarrow> PStr s \<notin> fst ` set d"
  by (induction d) (auto split: if_splits)

lemma json_round_trip_all:
  "(json_native v \<longrightarrow> (\<exists>doc. json_dump v = Some doc \<and> json_load doc = v))"
  "(json_native_list xs \<longrightarrow> (\<exists>ds. json_dump_list xs = Some ds \<and> json_load_list ds = xs))"
  "(json_native_items d \<longrightarrow>
      (\<exists>kvs. json_dump_items d = Some kvs \<and>
         (\<forall>acc. distinct (map fst (acc @ d)) \<longrightarrow> json_load_items kvs acc = acc @ d)))"
proof (induction v and xs and d rule: json_dump_json_dump_list_json_dump_items.induct)
  case (7 d)
  show ?case
  proof
    assume a: "json_native (PDict d)"
    with 7 obtain kvs where k: "json_dump_items d = Some kvs"
      and l: "\<forall>acc. distinct (map fst (acc @ d)) \<longrightarrow> json_load_items kvs acc = acc @ d" by auto
    from a have "distinct (map fst ([] @ d))" by simp
    with l have "json_load_items kvs [] = [] @ d" by blast
    with k show "\<exists>doc. json_dump (PDict d) = Some doc \<and> json_load doc = PDict d" by simp
  qed
next
  case (12 k v d)
  show ?case
  proof
    assume a: "json_native_items ((k, v) # d)"
    then obtain s where s: "k = PStr s" by (cases k) auto
    from a have nv: "json_native v" and nd: "json_native_items d" by simp_all
    from s have jk: "json_key k = Some s" by simp
    from 12(1)[OF jk] nv obtain j where j: "json_dump v = Some j" "json_load j = v" by auto
    from 12(2)[OF jk j(1)] nd obtain kvs where kvs: "json_dump_items d = Some kvs"
      "\<forall>acc. distinct (map fst (acc @ d)) \<longrightarrow> json_load_items kvs acc = acc @ d" by auto
    have "\<forall>acc. distinct (map fst (acc @ (k, v) # d)) \<longrightarrow> json_load_items ((s, j) # kvs) acc = acc @ (k, v) # d"
    proof (intro allI impI)
      fix acc assume d: "distinct (map fst (acc @ (k, v) # d))"
      then have "PStr s \<notin> fst ` set acc" using s by auto
      then have "dict_lookup acc (PStr s) = None" by (simp add: dict_lookup_PStr_None)
      then have u: "dict_update acc (PStr s) v = acc @ [(k, v)]" by (simp add: dict_update_append s)
      from d have "distinct (map fst ((acc @ [(k, v)]) @ d))" by simp
      with kvs(2) have "json_load_items kvs (acc @ [(k, v)]) = (acc @ [(k, v)]) @ d" by blast
      with u j show "json_load_items ((s, j) # kvs) acc = acc @ (k, v) # d" by simp
    qed
    with jk j kvs(1) show "\<exists>kvs. json_dump_items ((k, v) # d) = Some kvs \<and>
         (\<forall>acc. distinct (map fst (acc @ (k, v) # d)) \<longrightarrow> json_load_items kvs acc = acc @ (k, v) # d)"
      by simp
  qed
qed auto

lemma json_round_trip: "json_native v \<Longrightarrow> \<exists>doc. json_dump v = Some doc \<and> json_load doc = v"
  using json_round_trip_all(1) by blast

lemma demo_report_written:
  "Write (PStr ''enumeration_results.json'')
     (JObj [(''A'', JObj [(''status'', JStr ''success''),
                          (''result'', JArr [JStr ''finding'', JObj []]),
                          (''timestamp'', JStr ''2025-01-01T00:00:00'')]),
            (''B'', JObj [(''status'', JStr ''error''), (''error'', JStr ''boom''),
                          (''timestamp'', JStr ''2025-01-01T00:00:01'')]),
            (''C'', JObj [(''status'', JStr ''success''),
                          (''result'', JArr [JStr ''finding'', JObj []]),
                          (''timestamp'', JStr ''2025-01-01T00:00:02'')])])
     \<in> set (out (state_of (main demo_env)))"
  by code_simp

lemma demo_results_native: "json_native (PDict (results (state_of (main demo_env))))"
  by code_simp

section \<open>Defaults of the configuration\<close>

lemma with_config_twice [simp]: "with_config c (with_config c' r) = with_config c r"
  by (cases r) simp_all

lemma discover_entry_config:
  "discover_entry env dir (fw\<lparr>config := c\<rparr>) tc = with_config c (discover_entry env dir fw tc)"
  by (auto simp: discover_entry_def load_test_module_def emit_def trace_def
      split: sum.splits option.splits import_result.splits)

lemma discover_loop_config:
  "discover_loop env dir tcs (fw\<lparr>config := c\<rparr>) = with_config c (discover_loop env dir tcs fw)"
proof (induction tcs arbitrary: fw)
  case Nil
  then show ?case by simp
next
  case (Cons tc tcs)
  show ?case
    by (cases "discover_entry env dir fw tc") (simp_all add: discover_entry_config Cons.IH)
qed

lemma lookup_other_key:
  "k \<noteq> k' \<Longrightarrow> dict_lookup (d @ [(PStr k, v)]) (PStr k') = dict_lookup d (PStr k')"
  by (simp add: dict_lookup_append split: option.splits)

lemma lookup_new_key:
  "dict_lookup d (PStr k) = None \<Longrightarrow> dict_lookup (d @ [(PStr k, v)]) (PStr k) = Some v"
  by (simp add: dict_lookup_append)

lemma tests_directory_default:
  assumes "dict_lookup d (PStr ''tests_directory'') = None"
  shows "discover_tests env (fw\<lparr>config := PDict (d @ [(PStr ''tests_directory'', PStr ''tests'')])\<rparr>) =
         with_config (PDict (d @ [(PStr ''tests_directory'', PStr ''tests'')]))
           (discover_tests env (fw\<lparr>config := PDict d\<rparr>))"
proof -
  let ?d' = "d @ [(PStr ''tests_directory'', PStr ''tests'')]"
  have 1: "dict_lookup ?d' (PStr ''tests'') = dict_lookup d (PStr ''tests'')"
    by (rule lookup_other_key) simp
  have 2: "dict_lookup ?d' (PStr ''tests_directory'') = Some (PStr ''tests'')"
    by (rule lookup_new_key[OF assms])
  have l: "\<And>dir tcs. discover_loop env dir tcs (fw\<lparr>config := PDict ?d'\<rparr>) =
      with_config (PDict ?d') (discover_loop env dir tcs (fw\<lparr>config := PDict d\<rparr>))"
    by (simp add: discover_loop_config)
  show ?thesis
    unfolding discover_tests_def
    by (simp add: 1 2 assms l emit_def split: option.splits sum.splits pyresult.splits)
qed

lemma output_file_default:
  assumes "dict_lookup d (PStr ''output_file'') = None"
  shows "save_results env (fw\<lparr>config := PDict (d @ [(PStr ''output_file'', PStr ''enumeration_results.json'')])\<rparr>) =
         with_config (PDict (d @ [(PStr ''output_file'', PStr ''enumeration_results.json'')]))
           (save_results env (fw\<lparr>config := PDict d\<rparr>))"
  using assms
  by (simp add: save_results_def lookup_new_key emit_def trace_def split: option.splits)

lemma save_results_default:
  assumes "dict_lookup d (PStr ''save_results'') = None"
  shows "print_summary env (fw\<lparr>config := PDict (d @ [(PStr ''save_results'', PBool False)])\<rparr>) =
         with_config (PDict (d @ [(PStr ''save_results'', PBool False)]))
           (print_summary env (fw\<lparr>config := PDict d\<rparr>))"
  using assms
  by (simp add: print_summary_def lookup_new_key emit_def Let_def split: sum.splits)

lemma enabled_default:
  assumes "dict_lookup e (PStr ''enabled'') = None"
  shows "discover_entry env dir fw (PDict (e @ [(PStr ''enabled'', PBool False)])) =
         discover_entry env dir fw (PDict e)"
proof -
  let ?e' = "e @ [(PStr ''enabled'', PBool False)]"
  have g: "py_get (PDict e) ''enabled'' (PBool False) = Inr (PBool False)" using assms by simp
  have g': "py_get (PDict ?e') ''enabled'' (PBool False) = Inr (PBool False)"
    using assms by (simp add: lookup_new_key)
  have n: "py_getitem (PDict ?e') ''name'' = py_getitem (PDict e) ''name''"
    by (simp add: lookup_other_key)
  from skip_disabled[OF g, of env dir fw] skip_disabled[OF g', of env dir fw] n
  show ?thesis by simp
qed

lemma parameters_default:
  assumes "dict_lookup e (PStr ''parameters'') = None"
  shows "run_test env fw n \<lparr>module = m, test_config = PDict (e @ [(PStr ''parameters'', PDict [])])\<rparr> =
         run_test env fw n \<lparr>module = m, test_config = PDict e\<rparr>"
  using assms by (simp add: run_test_def lookup_new_key)

lemma tests_required:
  assumes "dict_lookup d (PStr ''tests'') = None"
  shows "discover_tests env (fw\<lparr>config := PDict d\<rparr>) = Returned False (emit MNoTestsDefined (fw\<lparr>config := PDict d\<rparr>))"
  using assms by (simp add: discover_tests_def)

lemma file_required:
  assumes "is_enabled (PDict e)" and "dict_lookup e (PStr ''file'') = None"
  shows "discover_entry env dir fw (PDict e) = Raised (KeyError ''file'') fw"
  using assms by (auto simp: discover_entry_def is_enabled_def split: option.splits)

lemma name_required:
  assumes "\<not> is_enabled (PDict e)" and "dict_lookup e (PStr ''name'') = None"
  shows "discover_entry env dir fw (PDict e) = Raised (KeyError ''name'') fw"
  using assms by (auto simp: discover_entry_def is_enabled_def split: option.splits)

lemma name_required_loaded:
  assumes "loadable env dir (PDict e) = Some m" and "dict_lookup e (PStr ''name'') = None"
  shows "\<exists>fw'. discover_entry env dir fw (PDict e) = Raised (KeyError ''name'') fw'"
  using assms
  by (auto simp: discover_entry_def loadable_def is_enabled_def entry_path_def load_test_module_def
      split: sum.splits if_splits option.splits import_result.splits)

section \<open>The claims\<close>

subsection \<open>C1: Failures of a check are recorded and isolated\<close>




subsection \<open>C2: Load failures skip the entry\<close>




subsection \<open>C3: The exit status\<close>




subsection \<open>C4: Payload or error message, by status\<close>

text \<open>
  Claim C4. Every result that \<^verbatim>\<open>run_test\<close> places in the result set, and so every
  result in the result set of any run of \<^verbatim>\<open>main\<close>, carries exactly one of the keys
  \<^verbatim>\<open>result\<close> and \<^verbatim>\<open>error\<close>, and the status decides which: with status
  \<^verbatim>\<open>success\<close> the payload is present and the error message absent, with status
  \<^verbatim>\<open>error\<close> the error message is present and the payload absent.
\<close>

theorem check_result_payload_xor_error:
  "(\<forall>(n, r) \<in> set (results (state_of (main env))). check_result_inv r) \<and>
   (\<forall>r \<in> snd ` set (results (state_of (run_test env fw test_name info))).
      r \<in> snd ` set (results fw) \<or> check_result_inv r)"
proof
  from main_results_ok[of env]
  show "\<forall>(n, r) \<in> set (results (state_of (main env))). check_result_inv r"
    by (auto simp: results_ok_def list_all_iff)
next
  show "\<forall>r \<in> snd ` set (results (state_of (run_test env fw test_name info))).
      r \<in> snd ` set (results fw) \<or> check_result_inv r"
    using run_test_values by blast
qed

theorem check_result_payload_xor_error_witness:
  "(PStr ''B'', error_result ''boom'' ''2025-01-01T00:00:01'') \<in> set (results (state_of (main demo_env))) \<and>
   py_getitem (error_result ''boom'' ''2025-01-01T00:00:01'') ''status'' = Inr (PStr ''error'') \<and>
   error_present (error_result ''boom'' ''2025-01-01T00:00:01'') \<and>
   \<not> payload_present (error_result ''boom'' ''2025-01-01T00:00:01'')"
proof -
  have m: "(PStr ''B'', error_result ''boom'' ''2025-01-01T00:00:01'') \<in> set (results (state_of (main demo_env)))"
    by (simp add: demo_results)
  from check_result_payload_xor_error[of demo_env] m
  have "check_result_inv (error_result ''boom'' ''2025-01-01T00:00:01'')" by blast
  with m show ?thesis
    by (simp add: check_result_inv_def error_result_def)
qed

subsection \<open>C5: The summary counts\<close>

text \<open>
  Claim C5. In every run, the summary that the reporter prints has as total the size of the
  result set, as successful the number of results with status \<^verbatim>\<open>success\<close>, as failed
  the number with status \<^verbatim>\<open>error\<close>, and the two counts add up to the total. A run in
  which \<^verbatim>\<open>main\<close> returns has printed such a summary.
\<close>

theorem summary_counts_add_up:
  "(\<forall>total successful failed.
      Print (MSummary total successful failed) \<in> set (out (state_of (main env))) \<longrightarrow>
      total = length (results (state_of (main env))) \<and>
      successful = count_with_status ''success'' (results (state_of (main env))) \<and>
      failed = count_with_status ''error'' (results (state_of (main env))) \<and>
      successful + failed = total) \<and>
   (\<forall>fw. main env = Returned () fw \<longrightarrow> (\<exists>t s f. Print (MSummary t s f) \<in> set (out fw)))"
proof -
  have r: "\<forall>e \<in> set (out (state_of (main env))). report_checked (state_of (main env)) e"
    using main_reports_checked[of env] by (simp add: reports_checked_def list_all_iff)
  have 1: "\<And>total successful failed.
      Print (MSummary total successful failed) \<in> set (out (state_of (main env))) \<Longrightarrow>
      total = length (results (state_of (main env))) \<and>
      successful = count_with_status ''success'' (results (state_of (main env))) \<and>
      failed = count_with_status ''error'' (results (state_of (main env))) \<and>
      successful + failed = total"
  proof -
    fix total successful failed
    assume "Print (MSummary total successful failed) \<in> set (out (state_of (main env)))"
    with r have "report_checked (state_of (main env)) (Print (MSummary total successful failed))"
      by blast
    then show "total = length (results (state_of (main env))) \<and>
      successful = count_with_status ''success'' (results (state_of (main env))) \<and>
      failed = count_with_status ''error'' (results (state_of (main env))) \<and>
      successful + failed = total" by simp
  qed
  have 2: "\<And>fw. main env = Returned () fw \<Longrightarrow> \<exists>t s f. Print (MSummary t s f) \<in> set (out fw)"
    by (rule main_prints_summary)
  from 1 2 show ?thesis by blast
qed

theorem summary_counts_add_up_witness:
  "Print (MSummary 3 2 1) \<in> set (out (state_of (main demo_env))) \<and>
   length (results (state_of (main demo_env))) = 3 \<and>
   count_with_status ''success'' (results (state_of (main demo_env))) = 2 \<and>
   count_with_status ''error'' (results (state_of (main demo_env))) = 1"
proof -
  have m: "Print (MSummary 3 2 1) \<in> set (out (state_of (main demo_env)))"
    by code_simp
  from summary_counts_add_up[of demo_env] m show ?thesis by metis
qed

subsection \<open>C6: Disabled entries\<close>

text \<open>
  The claim has no entry under the name of a disabled check in the result set. With a
  disabled entry \<open>A\<close> followed by an enabled entry \<open>A\<close>, the result set has an entry
  under \<open>A\<close>.
\<close>

theorem disabled_name_counterexample:
  "py_getitem (configured_entries shadow_env ! 0) ''enabled'' = Inr (PBool False) \<and>
   py_getitem (configured_entries shadow_env ! 0) ''name'' = Inr (PStr ''A'') \<and>
   map fst (results (state_of (main shadow_env))) = [PStr ''A'']"
  by code_simp

text \<open>
  Claim C6, amended. For an entry whose \<^verbatim>\<open>enabled\<close> field is false, the loop body only
  prints that the entry is skipped (or fails on a missing name): no module is loaded, no
  check is called and the registry is unchanged. In no run is a check registered for that
  entry, so no result comes from it; a result under some name is there only when an
  enabled entry of the configuration carries that name.
\<close>

theorem disabled_entry_is_skipped:
  assumes "py_getitem tc ''enabled'' = Inr (PBool False)"
  shows "discover_entry env dir fw tc =
           (case py_getitem tc ''name'' of
              Inr n \<Rightarrow> Returned () (emit (MSkippingDisabled n) fw)
            | Inl e \<Rightarrow> Raised e fw) \<and>
         (\<forall>(k, info) \<in> set (tests (state_of (main env))). test_config info \<noteq> tc) \<and>
         (\<forall>k \<in> dict_keys (results (state_of (main env))).
            \<exists>tc' \<in> set (configured_entries env). is_enabled tc' \<and>
              (\<exists>n'. py_getitem tc' ''name'' = Inr n' \<and> key_eq k n'))"
proof -
  from py_getitem_get[OF assms]
  have g: "py_get tc ''enabled'' (PBool False) = Inr (PBool False)" .
  then have ne: "\<not> is_enabled tc" by (simp add: is_enabled_def)
  from skip_disabled[OF g] have 1: "discover_entry env dir fw tc =
           (case py_getitem tc ''name'' of
              Inr n \<Rightarrow> Returned () (emit (MSkippingDisabled n) fw)
            | Inl e \<Rightarrow> Raised e fw)" by simp
  from unregistered_entry[OF not_enabled_not_loadable[OF ne]]
  have 2: "\<forall>(k, info) \<in> set (tests (state_of (main env))). test_config info \<noteq> tc" .
  from 1 2 result_keys_enabled[of env] show ?thesis by blast
qed

theorem disabled_entry_is_skipped_witness:
  "py_getitem (demo_entry ''D'' ''d.py'' [(PStr ''enabled'', PBool False)]) ''enabled'' = Inr (PBool False) \<and>
   discover_entry demo_env (PStr ''tests'') (init ''config.json'')
       (demo_entry ''D'' ''d.py'' [(PStr ''enabled'', PBool False)]) =
     Returned () (emit (MSkippingDisabled (PStr ''D'')) (init ''config.json'')) \<and>
   demo_entry ''D'' ''d.py'' [(PStr ''enabled'', PBool False)] \<notin>
      set (map (\<lambda>(k, info). test_config info) (tests (state_of (main demo_env))))"
proof -
  let ?tc = "demo_entry ''D'' ''d.py'' [(PStr ''enabled'', PBool False)]"
  have 1: "py_getitem ?tc ''enabled'' = Inr (PBool False)" by code_simp
  have n: "py_getitem ?tc ''name'' = Inr (PStr ''D'')" by code_simp
  note main_fact = disabled_entry_is_skipped[OF 1, of demo_env "PStr ''tests''" "init ''config.json''"]
  from main_fact n have a: "discover_entry demo_env (PStr ''tests'') (init ''config.json'') ?tc =
     Returned () (emit (MSkippingDisabled (PStr ''D'')) (init ''config.json''))" by simp
  from main_fact have "\<forall>(k, info) \<in> set (tests (state_of (main demo_env))). test_config info \<noteq> ?tc"
    by blast
  then have b: "?tc \<notin> set (map (\<lambda>(k, info). test_config info) (tests (state_of (main demo_env))))"
    by auto
  from 1 a b show ?thesis by blast
qed

subsection \<open>C7: Entries sharing a name\<close>

text \<open>
  Claim C7. In a run in which \<^verbatim>\<open>main\<close> returns, let an entry of the configuration be
  enabled and loadable, under a name that no later entry carries (any earlier entry may
  carry it, loadable or not). Then the result set has exactly one entry under that
  name, and it is the result recorded for the module and the configuration of that
  entry: an earlier check of the same name is overwritten, with no diagnostic other than
  the usual line for a loaded check. The keys of the result set are pairwise different,
  and their order is the order in which the checks were started.
\<close>

theorem later_spec_overwrites_earlier:
  assumes "main env = Returned () fw'"
      and "configured_entries env = pre @ tc2 # post"
      and "loadable env (tests_directory_of env) tc2 = Some m2"
      and "py_getitem tc2 ''name'' = Inr n"
      and "\<forall>tc \<in> set post. \<forall>n'. py_getitem tc ''name'' = Inr n' \<longrightarrow> \<not> key_eq n' n"
  shows "(\<exists>t. dict_lookup (results fw') n = Some (recorded env \<lparr>module = m2, test_config = tc2\<rparr> t)) \<and>
         length (filter (\<lambda>k. key_eq k n) (map fst (results fw'))) = 1 \<and>
         distinct (norm_keys (results fw')) \<and>
         map fst (results fw') = executed (out fw')"
proof -
  from main_Returned_run[OF assms(1)] obtain cfg fw2 where
    l: "discover_loop env (tests_directory_of env) (configured_entries env) (after_load env cfg) = Returned () fw2" and
    w: "dict_wf (tests fw2)" and r: "results fw' = expected_results env 0 (tests fw2)" and
    x: "executed (out fw') = map fst (tests fw2)" by blast
  from l assms(2) have "discover_loop env (tests_directory_of env) (pre @ tc2 # post) (after_load env cfg) = Returned () fw2"
    by simp
  from last_entry_wins[OF this assms(3,4,5)]
  have t: "dict_lookup (tests fw2) n = Some \<lparr>module = m2, test_config = tc2\<rparr>" .
  from expected_results_lookup[OF t, of env 0] r
  have 1: "\<exists>t. dict_lookup (results fw') n = Some (recorded env \<lparr>module = m2, test_config = tc2\<rparr> t)"
    by simp
  from w have d: "distinct (norm_keys (results fw'))" by (simp add: r dict_wf_def)
  from 1 obtain v where "dict_lookup (results fw') n = Some v" by blast
  from one_key[OF d this] have 2: "length (filter (\<lambda>k. key_eq k n) (map fst (results fw'))) = 1" .
  from r x have 3: "map fst (results fw') = executed (out fw')" by simp
  from 1 2 d 3 show ?thesis by blast
qed

theorem later_spec_overwrites_earlier_witness:
  "py_getitem (configured_entries demo_env ! 0) ''name'' = Inr (PStr ''A'') \<and>
   py_getitem (configured_entries demo_env ! 8) ''name'' = Inr (PStr ''A'') \<and>
   loadable demo_env (PStr ''tests'') (configured_entries demo_env ! 8) = Some module_c \<and>
   length (filter (\<lambda>k. key_eq k (PStr ''A'')) (map fst (results (state_of (main demo_env))))) = 1 \<and>
   map fst (results (state_of (main demo_env))) = executed (out (state_of (main demo_env)))"
proof -
  let ?tc = "demo_entry ''A'' ''c.py'' [(PStr ''enabled'', PBool True)]"
  have 1: "main demo_env = Returned () (state_of (main demo_env))"
    by (rule returns_valueD[OF demo_main_returns])
  have 3: "loadable demo_env (tests_directory_of demo_env) ?tc = Some module_c"
    by (simp only: demo_tests_dir demo_last_loadable)
  have 4: "py_getitem ?tc ''name'' = Inr (PStr ''A'')" by code_simp
  have 5: "\<forall>tc \<in> set []. \<forall>n'. py_getitem tc ''name'' = Inr n' \<longrightarrow> \<not> key_eq n' (PStr ''A'')"
    by simp
  note main_fact = later_spec_overwrites_earlier[OF 1 demo_entries 3 4 5]
  have a: "py_getitem (configured_entries demo_env ! 0) ''name'' = Inr (PStr ''A'')" by code_simp
  have b: "configured_entries demo_env ! 8 = ?tc" by code_simp
  have c: "length (filter (\<lambda>k. key_eq k (PStr ''A'')) (map fst (results (state_of (main demo_env))))) = 1"
    using main_fact[THEN conjunct2, THEN conjunct1] .
  have d: "map fst (results (state_of (main demo_env))) = executed (out (state_of (main demo_env)))"
    using main_fact[THEN conjunct2, THEN conjunct2, THEN conjunct2] .
  have e: "py_getitem (configured_entries demo_env ! 8) ''name'' = Inr (PStr ''A'')"
    by (simp only: b 4)
  have f: "loadable demo_env (PStr ''tests'') (configured_entries demo_env ! 8) = Some module_c"
    by (simp only: b demo_last_loadable)
  from a e f c d show ?thesis by (intro conjI)
qed

subsection \<open>C8: Implicit defaults\<close>

text \<open>
  The claim admits two defaults only. In this run the entry \<open>A\<close>, which has no
  \<^verbatim>\<open>enabled\<close> field, is skipped as disabled; the check \<open>B\<close>, which has no
  \<^verbatim>\<open>parameters\<close> field, is called with the empty dict; and without a
  \<^verbatim>\<open>save_results\<close> field nothing is written.
\<close>

theorem implicit_defaults_counterexample:
  "read_json defaults_env (config_path_arg defaults_env) =
     Parsed (PDict [(PStr ''tests'', PList
       [PDict [(PStr ''name'', PStr ''A''), (PStr ''file'', PStr ''a.py'')],
        PDict [(PStr ''name'', PStr ''B''), (PStr ''file'', PStr ''b.py''), (PStr ''enabled'', PBool True)]])]) \<and>
   out (state_of (main defaults_env)) =
     [Print MStart, Print (MConfigLoaded ''config.json''),
      Print (MSkippingDisabled (PStr ''A'')),
      Import ''tests/b.py'', Print (MLoadedTest (PStr ''B'')),
      Print (MStarting 1), Print (MRunning (PStr ''B'')), Invoke (PStr ''B'') (PDict []),
      Print (MErrorExecuting (PStr ''B'') ''boom''),
      Print (MSummary 1 0 1), Print MComplete]"
  by code_simp

text \<open>
  Claim C8, amended. Five fields have an implicit default, and leaving one of them out is
  the same as writing the default: \<^verbatim>\<open>tests_directory\<close> (\<^verbatim>\<open>"tests"\<close>), \<^verbatim>\<open>output_file\<close>
  (\<^verbatim>\<open>"enumeration_results.json"\<close>) and \<^verbatim>\<open>save_results\<close> (false) of the configuration,
  \<^verbatim>\<open>enabled\<close> (false) and \<^verbatim>\<open>parameters\<close> (the empty dict) of an entry. The fields
  \<^verbatim>\<open>tests\<close>, \<^verbatim>\<open>file\<close> and \<^verbatim>\<open>name\<close> have none: without \<^verbatim>\<open>tests\<close> discovery reports
  that no tests are defined and returns false, and reading a missing \<^verbatim>\<open>file\<close> or
  \<^verbatim>\<open>name\<close> raises KeyError.
\<close>

theorem implicit_defaults:
  "(dict_lookup d1 (PStr ''tests_directory'') = None \<longrightarrow>
      discover_tests env (fw\<lparr>config := PDict (d1 @ [(PStr ''tests_directory'', PStr ''tests'')])\<rparr>) =
      with_config (PDict (d1 @ [(PStr ''tests_directory'', PStr ''tests'')]))
        (discover_tests env (fw\<lparr>config := PDict d1\<rparr>))) \<and>
   (dict_lookup d2 (PStr ''output_file'') = None \<longrightarrow>
      save_results env (fw\<lparr>config := PDict (d2 @ [(PStr ''output_file'', PStr ''enumeration_results.json'')])\<rparr>) =
      with_config (PDict (d2 @ [(PStr ''output_file'', PStr ''enumeration_results.json'')]))
        (save_results env (fw\<lparr>config := PDict d2\<rparr>))) \<and>
   (dict_lookup d3 (PStr ''save_results'') = None \<longrightarrow>
      print_summary env (fw\<lparr>config := PDict (d3 @ [(PStr ''save_results'', PBool False)])\<rparr>) =
      with_config (PDict (d3 @ [(PStr ''save_results'', PBool False)]))
        (print_summary env (fw\<lparr>config := PDict d3\<rparr>))) \<and>
   (dict_lookup e1 (PStr ''enabled'') = None \<longrightarrow>
      discover_entry env dir fw (PDict (e1 @ [(PStr ''enabled'', PBool False)])) =
      discover_entry env dir fw (PDict e1)) \<and>
   (dict_lookup e2 (PStr ''parameters'') = None \<longrightarrow>
      run_test env fw n \<lparr>module = m, test_config = PDict (e2 @ [(PStr ''parameters'', PDict [])])\<rparr> =
      run_test env fw n \<lparr>module = m, test_config = PDict e2\<rparr>) \<and>
   (dict_lookup d4 (PStr ''tests'') = None \<longrightarrow>
      discover_tests env (fw\<lparr>config := PDict d4\<rparr>) =
      Returned False (emit MNoTestsDefined (fw\<lparr>config := PDict d4\<rparr>))) \<and>
   (is_enabled (PDict e3) \<and> dict_lookup e3 (PStr ''file'') = None \<longrightarrow>
      discover_entry env dir fw (PDict e3) = Raised (KeyError ''file'') fw) \<and>
   (\<not> is_enabled (PDict e4) \<and> dict_lookup e4 (PStr ''name'') = None \<longrightarrow>
      discover_entry env dir fw (PDict e4) = Raised (KeyError ''name'') fw) \<and>
   (loadable env dir (PDict e5) \<noteq> None \<and> dict_lookup e5 (PStr ''name'') = None \<longrightarrow>
      (\<exists>fw'. discover_entry env dir fw (PDict e5) = Raised (KeyError ''name'') fw'))"
proof (intro conjI impI)
  assume "dict_lookup d1 (PStr ''tests_directory'') = None"
  then show "discover_tests env (fw\<lparr>config := PDict (d1 @ [(PStr ''tests_directory'', PStr ''tests'')])\<rparr>) =
      with_config (PDict (d1 @ [(PStr ''tests_directory'', PStr ''tests'')]))
        (discover_tests env (fw\<lparr>config := PDict d1\<rparr>))" by (rule tests_directory_default)
next
  assume "dict_lookup d2 (PStr ''output_file'') = None"
  then show "save_results env (fw\<lparr>config := PDict (d2 @ [(PStr ''output_file'', PStr ''enumeration_results.json'')])\<rparr>) =
      with_config (PDict (d2 @ [(PStr ''output_file'', PStr ''enumeration_results.json'')]))
        (save_results env (fw\<lparr>config := PDict d2\<rparr>))" by (rule output_file_default)
next
  assume "dict_lookup d3 (PStr ''save_results'') = None"
  then show "print_summary env (fw\<lparr>config := PDict (d3 @ [(PStr ''save_results'', PBool False)])\<rparr>) =
      with_config (PDict (d3 @ [(PStr ''save_results'', PBool False)]))
        (print_summary env (fw\<lparr>config := PDict d3\<rparr>))" by (rule save_results_default)
next
  assume "dict_lookup e1 (PStr ''enabled'') = None"
  then show "discover_entry env dir fw (PDict (e1 @ [(PStr ''enabled'', PBool False)])) =
      discover_entry env dir fw (PDict e1)" by (rule enabled_default)
next
  assume "dict_lookup e2 (PStr ''parameters'') = None"
  then show "run_test env fw n \<lparr>module = m, test_config = PDict (e2 @ [(PStr ''parameters'', PDict [])])\<rparr> =
      run_test env fw n \<lparr>module = m, test_config = PDict e2\<rparr>" by (rule parameters_default)
next
  assume "dict_lookup d4 (PStr ''tests'') = None"
  then show "discover_tests env (fw\<lparr>config := PDict d4\<rparr>) =
      Returned False (emit MNoTestsDefined (fw\<lparr>config := PDict d4\<rparr>))" by (rule tests_required)
next
  assume "is_enabled (PDict e3) \<and> dict_lookup e3 (PStr ''file'') = None"
  then show "discover_entry env dir fw (PDict e3) = Raised (KeyError ''file'') fw"
    by (simp add: file_required)
next
  assume "\<not> is_enabled (PDict e4) \<and> dict_lookup e4 (PStr ''name'') = None"
  then show "discover_entry env dir fw (PDict e4) = Raised (KeyError ''name'') fw"
    by (simp add: name_required)
next
  assume "loadable env dir (PDict e5) \<noteq> None \<and> dict_lookup e5 (PStr ''name'') = None"
  then show "\<exists>fw'. discover_entry env dir fw (PDict e5) = Raised (KeyError ''name'') fw'"
    using name_required_loaded by auto
qed

theorem implicit_defaults_witness:
  "dict_lookup [(PStr ''name'', PStr ''H''), (PStr ''file'', PStr ''h.py'')] (PStr ''enabled'') = None \<and>
   discover_entry demo_env (PStr ''tests'') (init ''config.json'')
      (PDict ([(PStr ''name'', PStr ''H''), (PStr ''file'', PStr ''h.py'')] @ [(PStr ''enabled'', PBool False)])) =
   discover_entry demo_env (PStr ''tests'') (init ''config.json'')
      (PDict [(PStr ''name'', PStr ''H''), (PStr ''file'', PStr ''h.py'')]) \<and>
   dict_lookup [(PStr ''enabled'', PBool True)] (PStr ''parameters'') = None \<and>
   run_test demo_env (init ''config.json'') (PStr ''B'')
      \<lparr>module = module_b, test_config = PDict ([(PStr ''enabled'', PBool True)] @ [(PStr ''parameters'', PDict [])])\<rparr> =
   run_test demo_env (init ''config.json'') (PStr ''B'')
      \<lparr>module = module_b, test_config = PDict [(PStr ''enabled'', PBool True)]\<rparr> \<and>
   is_enabled (PDict [(PStr ''enabled'', PBool True)]) \<and>
   dict_lookup [(PStr ''enabled'', PBool True)] (PStr ''file'') = None \<and>
   discover_entry demo_env (PStr ''tests'') (init ''config.json'') (PDict [(PStr ''enabled'', PBool True)]) =
      Raised (KeyError ''file'') (init ''config.json'') \<and>
   dict_lookup ([] :: (pyval \<times> pyval) list) (PStr ''tests'') = None \<and>
   discover_tests demo_env ((init ''config.json'')\<lparr>config := PDict []\<rparr>) =
      Returned False (emit MNoTestsDefined ((init ''config.json'')\<lparr>config := PDict []\<rparr>))"
proof -
  let ?h = "[(PStr ''name'', PStr ''H''), (PStr ''file'', PStr ''h.py'')]"
  let ?e = "[(PStr ''enabled'', PBool True)]"
  have 1: "dict_lookup ?h (PStr ''enabled'') = None" by code_simp
  have 2: "dict_lookup ?e (PStr ''parameters'') = None" by code_simp
  have 3: "is_enabled (PDict ?e)" by code_simp
  have 4: "dict_lookup ?e (PStr ''file'') = None" by code_simp
  have 5: "dict_lookup ([] :: (pyval \<times> pyval) list) (PStr ''tests'') = None" by simp
  note main_fact = implicit_defaults[where ?e1.0 = ?h and ?e2.0 = ?e and ?e3.0 = ?e and ?d4.0 = "[]"
      and env = demo_env and dir = "PStr ''tests''" and fw = "init ''config.json''"
      and n = "PStr ''B''" and m = module_b]
  from main_fact 1 have a: "discover_entry demo_env (PStr ''tests'') (init ''config.json'')
      (PDict (?h @ [(PStr ''enabled'', PBool False)])) =
      discover_entry demo_env (PStr ''tests'') (init ''config.json'') (PDict ?h)" by blast
  from main_fact 2 have b: "run_test demo_env (init ''config.json'') (PStr ''B'')
      \<lparr>module = module_b, test_config = PDict (?e @ [(PStr ''parameters'', PDict [])])\<rparr> =
      run_test demo_env (init ''config.json'') (PStr ''B'') \<lparr>module = module_b, test_config = PDict ?e\<rparr>"
    by blast
  from main_fact 3 4 have c: "discover_entry demo_env (PStr ''tests'') (init ''config.json'') (PDict ?e) =
      Raised (KeyError ''file'') (init ''config.json'')" by blast
  from main_fact 5 have d: "discover_tests demo_env ((init ''config.json'')\<lparr>config := PDict []\<rparr>) =
      Returned False (emit MNoTestsDefined ((init ''config.json'')\<lparr>config := PDict []\<rparr>))" by blast
  from 1 a 2 b 3 4 c 5 d show ?thesis by (intro conjI)
qed

subsection \<open>C9: Reading the report back\<close>

text \<open>
  The claim has every persisted result set read back as it was. A payload with an integer
  key, \<^verbatim>\<open>{22: 'open'}\<close>, is written without error, with the key as the string
  \<^verbatim>\<open>"22"\<close>, and what is read back differs from the result set.
\<close>

theorem int_key_payload_counterexample:
  "results (state_of (main (saving_env module_ports))) =
     [(PStr ''A'', success_result (PDict [(PInt 22, PStr ''open'')]) ''2025-01-01T00:00:00'')] \<and>
   Write (PStr ''enumeration_results.json'')
     (JObj [(''A'', JObj [(''status'', JStr ''success''), (''result'', JObj [(''22'', JStr ''open'')]),
                          (''timestamp'', JStr ''2025-01-01T00:00:00'')])])
     \<in> set (out (state_of (main (saving_env module_ports)))) \<and>
   json_load (JObj [(''A'', JObj [(''status'', JStr ''success''), (''result'', JObj [(''22'', JStr ''open'')]),
                          (''timestamp'', JStr ''2025-01-01T00:00:00'')])]) =
     PDict [(PStr ''A'', success_result (PDict [(PStr ''22'', PStr ''open'')]) ''2025-01-01T00:00:00'')] \<and>
   json_load (JObj [(''A'', JObj [(''status'', JStr ''success''), (''result'', JObj [(''22'', JStr ''open'')]),
                          (''timestamp'', JStr ''2025-01-01T00:00:00'')])]) \<noteq>
     PDict (results (state_of (main (saving_env module_ports))))"
  by code_simp

text \<open>
  Claim C9, amended. When a run has written its report and the result set consists of
  values that JSON has as they are (the check names are strings, and the payloads are
  built from None, booleans, integers, strings, lists and dicts with string keys), the
  document written is the serialisation of the result set, and reading it back gives
  the result set again: the same names in the same order, and under each name the same
  status, payload or error message, and timestamp.
\<close>

theorem persisted_report_round_trip:
  assumes "Write path doc \<in> set (out (state_of (main env)))"
      and "json_native (PDict (results (state_of (main env))))"
  shows "json_dump (PDict (results (state_of (main env)))) = Some doc \<and>
         json_load doc = PDict (results (state_of (main env)))"
proof -
  from main_reports_checked[of env]
  have "\<forall>e \<in> set (out (state_of (main env))). report_checked (state_of (main env)) e"
    by (simp add: reports_checked_def list_all_iff)
  with assms(1) have "report_checked (state_of (main env)) (Write path doc)" by blast
  then have d: "json_dump (PDict (results (state_of (main env)))) = Some doc" by simp
  from json_round_trip[OF assms(2)] d show ?thesis by auto
qed

theorem persisted_report_round_trip_witness:
  "json_native (PDict (results (state_of (main demo_env)))) \<and>
   json_load
     (JObj [(''A'', JObj [(''status'', JStr ''success''),
                          (''result'', JArr [JStr ''finding'', JObj []]),
                          (''timestamp'', JStr ''2025-01-01T00:00:00'')]),
            (''B'', JObj [(''status'', JStr ''error''), (''error'', JStr ''boom''),
                          (''timestamp'', JStr ''2025-01-01T00:00:01'')]),
            (''C'', JObj [(''status'', JStr ''success''),
                          (''result'', JArr [JStr ''finding'', JObj []]),
                          (''timestamp'', JStr ''2025-01-01T00:00:02'')])]) =
   PDict (results (state_of (main demo_env)))"
proof
  show "json_native (PDict (results (state_of (main demo_env))))" by (rule demo_results_native)
next
  from persisted_report_round_trip[OF demo_report_written demo_results_native]
  show "json_load
     (JObj [(''A'', JObj [(''status'', JStr ''success''),
                          (''result'', JArr [JStr ''finding'', JObj []]),
                          (''timestamp'', JStr ''2025-01-01T00:00:00'')]),
            (''B'', JObj [(''status'', JStr ''error''), (''error'', JStr ''boom''),
                          (''timestamp'', JStr ''2025-01-01T00:00:01'')]),
            (''C'', JObj [(''status'', JStr ''success''),
                          (''result'', JArr [JStr ''finding'', JObj []]),
                          (''timestamp'', JStr ''2025-01-01T00:00:02'')])]) =
   PDict (results (state_of (main demo_env)))" by (rule conjunct2)
qed

subsection \<open>C10: Entries without an enabled field\<close>

text \<open>
  Claim C10. An entry without an \<^verbatim>\<open>enabled\<close> field is treated exactly as the same entry
  with \<^verbatim>\<open>enabled\<close> set to false: the loop body only prints that the entry is skipped (or
  fails on a missing name), loading and calling nothing, and in no run is a check
  registered for the entry; the keys of the result set are keys of registered checks, so
  that no result comes from it.
\<close>

theorem absent_enabled_is_disabled:
  assumes "dict_lookup d (PStr ''enabled'') = None"
  shows "discover_entry env dir fw (PDict d) =
           discover_entry env dir fw (PDict (d @ [(PStr ''enabled'', PBool False)])) \<and>
         discover_entry env dir fw (PDict d) =
           (case py_getitem (PDict d) ''name'' of
              Inr n \<Rightarrow> Returned () (emit (MSkippingDisabled n) fw)
            | Inl e \<Rightarrow> Raised e fw) \<and>
         (\<forall>(k, info) \<in> set (tests (state_of (main env))). test_config info \<noteq> PDict d) \<and>
         dict_keys (results (state_of (main env))) \<subseteq> dict_keys (tests (state_of (main env)))"
proof -
  from assms have g: "py_get (PDict d) ''enabled'' (PBool False) = Inr (PBool False)" by simp
  then have ne: "\<not> is_enabled (PDict d)" by (simp add: is_enabled_def)
  from skip_disabled[OF g] have 1: "discover_entry env dir fw (PDict d) =
           (case py_getitem (PDict d) ''name'' of
              Inr n \<Rightarrow> Returned () (emit (MSkippingDisabled n) fw)
            | Inl e \<Rightarrow> Raised e fw)" by simp
  let ?d' = "d @ [(PStr ''enabled'', PBool False)]"
  have g': "py_get (PDict ?d') ''enabled'' (PBool False) = Inr (PBool False)"
    using assms by (simp add: dict_lookup_append)
  have n': "py_getitem (PDict ?d') ''name'' = py_getitem (PDict d) ''name''"
    by (simp add: dict_lookup_append split: option.splits)
  from skip_disabled[OF g'] n' have 2: "discover_entry env dir fw (PDict ?d') =
           (case py_getitem (PDict d) ''name'' of
              Inr n \<Rightarrow> Returned () (emit (MSkippingDisabled n) fw)
            | Inl e \<Rightarrow> Raised e fw)" by simp
  from unregistered_entry[OF not_enabled_not_loadable[OF ne]]
  have 3: "\<forall>(k, info) \<in> set (tests (state_of (main env))). test_config info \<noteq> PDict d" .
  from main_registry_sound[of env]
  have 4: "dict_keys (results (state_of (main env))) \<subseteq> dict_keys (tests (state_of (main env)))"
    by (simp add: registry_sound_def)
  from 1 2 3 4 show ?thesis by simp
qed

theorem absent_enabled_is_disabled_witness:
  "dict_lookup [(PStr ''name'', PStr ''H''), (PStr ''file'', PStr ''h.py'')] (PStr ''enabled'') = None \<and>
   discover_entry demo_env (PStr ''tests'') (init ''config.json'')
       (PDict [(PStr ''name'', PStr ''H''), (PStr ''file'', PStr ''h.py'')]) =
     Returned () (emit (MSkippingDisabled (PStr ''H'')) (init ''config.json'')) \<and>
   PDict [(PStr ''name'', PStr ''H''), (PStr ''file'', PStr ''h.py'')] \<notin>
      set (map (\<lambda>(k, info). test_config info) (tests (state_of (main demo_env))))"
proof -
  let ?d = "[(PStr ''name'', PStr ''H''), (PStr ''file'', PStr ''h.py'')]"
  have 1: "dict_lookup ?d (PStr ''enabled'') = None" by code_simp
  have n: "py_getitem (PDict ?d) ''name'' = Inr (PStr ''H'')" by code_simp
  note main_fact = absent_enabled_is_disabled[OF 1, of demo_env "PStr ''tests''" "init ''config.json''"]
  have a: "discover_entry demo_env (PStr ''tests'') (init ''config.json'') (PDict ?d) =
     Returned () (emit (MSkippingDisabled (PStr ''H'')) (init ''config.json''))"
    using main_fact[THEN conjunct2, THEN conjunct1] by (simp only: n sum.case)
  have "\<forall>(k, info) \<in> set (tests (state_of (main demo_env))). test_config info \<noteq> PDict ?d"
    using main_fact[THEN conjunct2, THEN conjunct2, THEN conjunct1] .
  then have b: "PDict ?d \<notin> set (map (\<lambda>(k, info). test_config info) (tests (state_of (main demo_env))))"
    by auto
  from 1 a b show ?thesis by blast
qed

end
